theory Spec2Isabelle
  imports Complex_Main
begin

section \<open>Spherical Voronoi label raster (backend/algorithm.py, backend/main.py)\<close>

text \<open>
  The Python program works on numpy float64 arrays. The embedding reads every float as a
  \<^typ>\<open>real\<close> and every numpy operation as the exact operation on reals; rounding is
  outside the model. A one-dimensional array is a list; a two-dimensional array is a
  row-major buffer with its shape (\<open>ndarray\<close> below). Every \<^verbatim>\<open>raise\<close> of the Python
  code, and of the numpy calls it makes, is a value \<open>Inl e\<close>.
\<close>

subsection \<open>Exceptions and numpy primitives\<close>

datatype py_exception =
    ReadError string   \<comment> \<open>whatever \<^verbatim>\<open>gpd.read_file\<close> raised, with its message\<close>
  | IndexError         \<comment> \<open>\<^verbatim>\<open>cities_coords[:, 0]\<close> on a one-dimensional array\<close>
  | ValueError         \<comment> \<open>shape mismatch, negative sample count, bad unpacking\<close>

type_synonym point3 = "real \<times> real \<times> real"

definition deg2rad :: "real \<Rightarrow> real" where
  "deg2rad d = d * (pi / 180)"

text \<open>
  Elementwise product of two one-dimensional arrays with numpy's broadcasting: equal
  lengths multiply pointwise, a length-one operand is stretched, anything else raises.
\<close>

definition np_mul :: "real list \<Rightarrow> real list \<Rightarrow> py_exception + real list" where
  "np_mul xs ys =
     (if length xs = length ys then Inr (map (\<lambda>(x, y). x * y) (zip xs ys))
      else if length xs = 1 then Inr (map (\<lambda>y. hd xs * y) ys)
      else if length ys = 1 then Inr (map (\<lambda>x. x * hd ys) xs)
      else Inl ValueError)"

text \<open>\<^verbatim>\<open>np.column_stack((x, y, z))\<close>: the three columns must have one common length.\<close>

definition column_stack :: "real list \<Rightarrow> real list \<Rightarrow> real list \<Rightarrow> py_exception + point3 list" where
  "column_stack x y z =
     (if length x = length y \<and> length y = length z then Inr (zip x (zip y z))
      else Inl ValueError)"

text \<open>
  \<^verbatim>\<open>np.linspace(start, stop, num)\<close> with the default \<^verbatim>\<open>endpoint=True\<close>: a negative
  \<open>num\<close> raises; otherwise \<open>arange(num) * step + start\<close> with
  \<open>step = (stop - start) / (num - 1)\<close>, the last entry overwritten by \<open>stop\<close> when
  \<open>num > 1\<close>; for \<open>num \<le> 1\<close> numpy multiplies by \<open>stop - start\<close> instead of a step.
\<close>

definition linspace :: "real \<Rightarrow> real \<Rightarrow> int \<Rightarrow> py_exception + real list" where
  "linspace start stop num =
     (if num < 0 then Inl ValueError
      else let n = nat num; delta = stop - start in
        Inr (if n \<le> 1 then map (\<lambda>i. real i * delta + start) [0..<n]
             else (map (\<lambda>i. real i * (delta / real (n - 1)) + start) [0..<n])[n - 1 := stop]))"

record 'a ndarray =
  nrows :: nat
  ncols :: nat
  flat :: "'a list"   \<comment> \<open>row-major (C order), as \<^verbatim>\<open>ravel()\<close> returns it\<close>

definition shape :: "'a ndarray \<Rightarrow> nat \<times> nat" where
  "shape a = (nrows a, ncols a)"

text \<open>\<^verbatim>\<open>a[i, j]\<close> for \<open>i < nrows a\<close> and \<open>j < ncols a\<close>.\<close>

definition item :: "'a ndarray \<Rightarrow> nat \<Rightarrow> nat \<Rightarrow> 'a" where
  "item a i j = flat a ! (i * ncols a + j)"

definition ravel :: "'a ndarray \<Rightarrow> 'a list" where
  "ravel a = flat a"

text \<open>\<^verbatim>\<open>np.meshgrid(xs, ys)\<close> with the default \<^verbatim>\<open>indexing='xy'\<close>: two arrays of shape
  \<open>(len ys, len xs)\<close>; the first repeats \<open>xs\<close> in every row, the second holds \<open>ys ! i\<close>
  throughout row \<open>i\<close>.\<close>

definition meshgrid :: "'a list \<Rightarrow> 'a list \<Rightarrow> 'a ndarray \<times> 'a ndarray" where
  "meshgrid xs ys =
     (\<lparr>nrows = length ys, ncols = length xs, flat = concat (map (\<lambda>_. xs) ys)\<rparr>,
      \<lparr>nrows = length ys, ncols = length xs, flat = concat (map (\<lambda>y. map (\<lambda>_. y) xs) ys)\<rparr>)"

text \<open>\<^verbatim>\<open>a.reshape(shape)\<close> of a one-dimensional array: the sizes must agree.\<close>

definition reshape :: "'a list \<Rightarrow> nat \<times> nat \<Rightarrow> py_exception + 'a ndarray" where
  "reshape xs sh =
     (if length xs = fst sh * snd sh
      then Inr \<lparr>nrows = fst sh, ncols = snd sh, flat = xs\<rparr>
      else Inl ValueError)"

subsection \<open>Coordinate projector: \<^verbatim>\<open>geo_to_cartesian\<close> (algorithm.py, lines 16-25)\<close>

definition geo_to_cartesian :: "real list \<Rightarrow> real list \<Rightarrow> py_exception + point3 list" where
  "geo_to_cartesian lat_deg lon_deg =
     (let lat_rad = map deg2rad lat_deg;
          lon_rad = map deg2rad lon_deg
      in case np_mul (map cos lat_rad) (map cos lon_rad) of
           Inl e \<Rightarrow> Inl e
         | Inr x \<Rightarrow>
             (case np_mul (map cos lat_rad) (map sin lon_rad) of
                Inl e \<Rightarrow> Inl e
              | Inr y \<Rightarrow> column_stack x y (map sin lat_rad)))"

text \<open>The projection as the specification words it, for one (latitude, longitude) pair
  given in degrees.\<close>

definition spec_unit_sphere :: "real \<times> real \<Rightarrow> point3" where
  "spec_unit_sphere p =
     (let lat = fst p * pi / 180; lon = snd p * pi / 180
      in (cos lat * cos lon, cos lat * sin lon, sin lat))"

subsection \<open>External collaborators\<close>

text \<open>
  What the program needs of a \<^verbatim>\<open>GeoDataFrame\<close> is its bounding box
  \<^verbatim>\<open>total_bounds = (minx, miny, maxx, maxy)\<close>. The file reader \<^verbatim>\<open>gpd.read_file\<close>
  and the nearest-neighbour query of \<^verbatim>\<open>scipy.spatial.cKDTree\<close> are library code: both
  are parameters of the model. \<open>query data x\<close> stands for
  \<^verbatim>\<open>cKDTree(data).query(x, k=1)[1]\<close> on a single point \<open>x\<close>.
\<close>

record geodataframe =
  total_bounds :: "real \<times> real \<times> real \<times> real"

type_synonym reader = "string \<Rightarrow> py_exception + geodataframe"

type_synonym kd_query = "point3 list \<Rightarrow> point3 \<Rightarrow> nat"

text \<open>The path \<^verbatim>\<open>gpd.datasets.get_path('naturalearth_lowres')\<close> of the bundled dataset.\<close>

definition naturalearth_lowres :: string where
  "naturalearth_lowres = ''naturalearth_lowres''"

definition and_then :: "'e + 'a \<Rightarrow> ('a \<Rightarrow> 'e + 'b) \<Rightarrow> 'e + 'b" where
  "and_then r f = (case r of Inl e \<Rightarrow> Inl e | Inr x \<Rightarrow> f x)"

subsection \<open>\<^verbatim>\<open>generate_voronoi_map\<close> (algorithm.py, lines 27-142)\<close>

text \<open>
  Lines 42-46: read the caller's dataset; on any exception read the bundled one, outside
  the \<^verbatim>\<open>try\<close>, so that its exception propagates. The first component lists the paths
  handed to \<^verbatim>\<open>gpd.read_file\<close>, in order.
\<close>

definition load_world :: "reader \<Rightarrow> string \<Rightarrow> string list \<times> (py_exception + geodataframe)" where
  "load_world read_file geojson_path =
     (case read_file geojson_path of
        Inr world \<Rightarrow> ([geojson_path], Inr world)
      | Inl e \<Rightarrow> ([geojson_path, naturalearth_lowres], read_file naturalearth_lowres))"

text \<open>Lines 50-64. \<^verbatim>\<open>not extent\<close> holds for \<^verbatim>\<open>None\<close> and for the empty list; the length
  is looked at for a non-empty list only.\<close>

definition resolve_extent :: "real list option \<Rightarrow> geodataframe \<Rightarrow> real list" where
  "resolve_extent extent world =
     (let derived =
            (case total_bounds world of (min_lon, min_lat, max_lon, max_lat) \<Rightarrow>
               let margin_x = (max_lon - min_lon) * 0.05;
                   margin_y = (max_lat - min_lat) * 0.05
               in [max (- 180) (min_lon - margin_x),
                   min 180 (max_lon + margin_x),
                   max (- 90) (min_lat - margin_y),
                   min 90 (max_lat + margin_y)])
      in case extent of
           None \<Rightarrow> derived
         | Some given \<Rightarrow> if given = [] \<or> length given \<noteq> 4 then derived else given)"

text \<open>Lines 70-80. Unpacking a list that does not have four entries raises.\<close>

definition build_grid ::
  "real list \<Rightarrow> int \<Rightarrow> int \<Rightarrow> py_exception + (real list \<times> real list \<times> real ndarray \<times> real ndarray)" where
  "build_grid extent lat_n lon_n =
     (case extent of
        [view_min_lon, view_max_lon, view_min_lat, view_max_lat] \<Rightarrow>
          let grid_pad_x = (view_max_lon - view_min_lon) * 0.1;
              grid_pad_y = (view_max_lat - view_min_lat) * 0.1
          in and_then (linspace (max (- 90) (view_min_lat - grid_pad_y))
                                (min 90 (view_max_lat + grid_pad_y)) lat_n) (\<lambda>lats.
             and_then (linspace (max (- 180) (view_min_lon - grid_pad_x))
                                (min 180 (view_max_lon + grid_pad_x)) lon_n) (\<lambda>lons.
             case meshgrid lons lats of (lon_grid, lat_grid) \<Rightarrow>
               Inr (lats, lons, lon_grid, lat_grid)))
      | _ \<Rightarrow> Inl ValueError)"

text \<open>\<^verbatim>\<open>cities_coords[:, 0]\<close> and \<^verbatim>\<open>cities_coords[:, 1]\<close>: \<^verbatim>\<open>np.array([])\<close> is
  one-dimensional, and indexing it with two indices raises.\<close>

definition columns :: "(real \<times> real) list \<Rightarrow> py_exception + (real list \<times> real list)" where
  "columns cities_coords =
     (if cities_coords = [] then Inl IndexError
      else Inr (map fst cities_coords, map snd cities_coords))"

text \<open>Lines 83-89: project grid and sites, query the tree for every grid point, and give
  the flat answer the shape of the grid.\<close>

definition assign_nearest ::
  "kd_query \<Rightarrow> (real \<times> real) list \<Rightarrow> real ndarray \<Rightarrow> real ndarray \<Rightarrow> py_exception + nat ndarray" where
  "assign_nearest query cities_coords lon_grid lat_grid =
     and_then (geo_to_cartesian (ravel lat_grid) (ravel lon_grid)) (\<lambda>grid_points_cartesian.
     and_then (columns cities_coords) (\<lambda>(city_lat, city_lon).
     and_then (geo_to_cartesian city_lat city_lon) (\<lambda>city_points_cartesian.
       let indices = map (query city_points_cartesian) grid_points_cartesian
       in reshape indices (shape lon_grid))))"

text \<open>
  What the function hands to matplotlib, in place of the PNG it makes of it: the drawing
  calls themselves are library code and are taken to succeed.
\<close>

record figure =
  fig_lon_grid :: "real ndarray"
  fig_lat_grid :: "real ndarray"
  fig_nearest_city :: "nat ndarray"
  fig_colors :: "string list"
  fig_world :: geodataframe
  fig_plugin_map :: "geodataframe option"
  fig_scatter :: "(real \<times> real) list"
  fig_ocean :: bool
  fig_extent :: "real list"

text \<open>Lines 113-118: \<^verbatim>\<open>draw_plugin and plugin_path\<close> is false for \<^verbatim>\<open>None\<close> and for the
  empty string; a failed read is printed and dropped.\<close>

definition draw_plugin_map ::
  "reader \<Rightarrow> string option \<Rightarrow> bool \<Rightarrow> string list \<times> geodataframe option" where
  "draw_plugin_map read_file plugin_path draw_plugin =
     (case plugin_path of
        None \<Rightarrow> ([], None)
      | Some path \<Rightarrow>
          if draw_plugin \<and> path \<noteq> [] then
            (case read_file path of
               Inl e \<Rightarrow> ([path], None)
             | Inr plugin_map \<Rightarrow> ([path], Some plugin_map))
          else ([], None))"

definition generate_voronoi_map ::
  "kd_query \<Rightarrow> reader \<Rightarrow> (real \<times> real) list \<Rightarrow> string \<Rightarrow> real list option \<Rightarrow> string list \<Rightarrow>
   string option \<Rightarrow> bool \<Rightarrow> bool \<Rightarrow> int \<Rightarrow> int \<Rightarrow> string list \<times> (py_exception + figure)" where
  "generate_voronoi_map query read_file points geojson_path extent point_colors
       plugin_path draw_plugin fill_ocean lat_n lon_n =
     (case load_world read_file geojson_path of
        (reads, Inl e) \<Rightarrow> (reads, Inl e)
      | (reads, Inr world) \<Rightarrow>
          let extent' = resolve_extent extent world in
          (case and_then (build_grid extent' lat_n lon_n) (\<lambda>(lats, lons, lon_grid, lat_grid).
                and_then (assign_nearest query points lon_grid lat_grid) (\<lambda>nearest_city.
                  Inr (lon_grid, lat_grid, nearest_city))) of
             Inl e \<Rightarrow> (reads, Inl e)
           | Inr (lon_grid, lat_grid, nearest_city) \<Rightarrow>
               (case draw_plugin_map read_file plugin_path draw_plugin of
                  (plugin_reads, plugin_map) \<Rightarrow>
                    (reads @ plugin_reads,
                     Inr \<lparr>fig_lon_grid = lon_grid,
                          fig_lat_grid = lat_grid,
                          fig_nearest_city = nearest_city,
                          fig_colors = take (length points) point_colors,
                          fig_world = world,
                          fig_plugin_map = plugin_map,
                          fig_scatter = map (\<lambda>(lat, lon). (lon, lat)) points,
                          fig_ocean = fill_ocean,
                          fig_extent = extent'\<rparr>))))"

subsection \<open>\<^verbatim>\<open>api_generate_map\<close> (main.py, lines 29-91)\<close>

definition RESOLUTION_MAP :: "string \<rightharpoonup> int \<times> int" where
  "RESOLUTION_MAP =
     [''low'' \<mapsto> (600, 1200), ''medium'' \<mapsto> (1200, 2400), ''high'' \<mapsto> (2400, 4800)]"

text \<open>\<^verbatim>\<open>d.get(k, default)\<close>.\<close>

definition dict_get :: "('k \<rightharpoonup> 'v) \<Rightarrow> 'k \<Rightarrow> 'v \<Rightarrow> 'v" where
  "dict_get d k dflt = (case d k of None \<Rightarrow> dflt | Some v \<Rightarrow> v)"

definition UPLOAD_DIR :: string where
  "UPLOAD_DIR = ''../uploads''"

text \<open>\<^verbatim>\<open>os.path.join\<close> of two components on a POSIX system.\<close>

definition os_path_join :: "string \<Rightarrow> string \<Rightarrow> string" where
  "os_path_join a b =
     (if b \<noteq> [] \<and> hd b = CHR ''/'' then b
      else if a = [] \<or> last a = CHR ''/'' then a @ b
      else a @ ''/'' @ b)"

datatype http_detail = Message string | ExceptionText py_exception

datatype http_exception = HTTPException int http_detail

text \<open>
  The form fields after \<^verbatim>\<open>json.loads\<close>: \<open>None\<close> in a \<open>_json\<close> field stands for a
  \<^verbatim>\<open>JSONDecodeError\<close>; the extent decodes to a list or to \<^verbatim>\<open>None\<close> (JSON \<^verbatim>\<open>null\<close>).
  The uploaded files are named by their file names.
\<close>

record request =
  points_json :: "(real \<times> real) list option"
  extent_json :: "real list option option"
  colors_json :: "string list option"
  req_draw_plugin :: bool
  req_fill_ocean :: bool
  resolution :: string
  filename :: string
  plugin_filename :: "string option"

text \<open>Writing the uploads to disk (lines 61-70) has no part in the result beyond the two
  paths; the model keeps the paths.\<close>

definition api_generate_map :: "kd_query \<Rightarrow> reader \<Rightarrow> request \<Rightarrow> http_exception + figure" where
  "api_generate_map query read_file req =
     (case (points_json req, extent_json req, colors_json req) of
        (Some points_list, Some extent_list, Some colors_list) \<Rightarrow>
          if length points_list < 2 \<or> length points_list > 30 then
            Inl (HTTPException 400 (Message ''Points count must be between 2 and 30''))
          else if length colors_list \<noteq> length points_list then
            Inl (HTTPException 400 (Message ''Colors count mismatch''))
          else
            let file_path = os_path_join UPLOAD_DIR (filename req);
                plugin_path = (case plugin_filename req of
                                 None \<Rightarrow> None
                               | Some name \<Rightarrow> Some (os_path_join UPLOAD_DIR (''plugin_'' @ name)))
            in (case dict_get RESOLUTION_MAP (resolution req) (1200, 2400) of
                  (lat_n, lon_n) \<Rightarrow>
                    (case snd (generate_voronoi_map query read_file points_list file_path
                                 extent_list colors_list plugin_path (req_draw_plugin req)
                                 (req_fill_ocean req) lat_n lon_n) of
                       Inr img_buf \<Rightarrow> Inr img_buf
                     | Inl e \<Rightarrow> Inl (HTTPException 500 (ExceptionText e))))
      | _ \<Rightarrow> Inl (HTTPException 400 (Message ''JSON format error'')))"

subsection \<open>Vocabulary of the specification\<close>

text \<open>Euclidean distance in 3-D, and what it means for index \<open>k\<close> to be a nearest
  site of the point \<open>x\<close> among \<open>data\<close>.\<close>

definition euclid :: "point3 \<Rightarrow> point3 \<Rightarrow> real" where
  "euclid p q =
     (case (p, q) of ((x1, y1, z1), (x2, y2, z2)) \<Rightarrow>
        sqrt ((x1 - x2)\<^sup>2 + (y1 - y2)\<^sup>2 + (z1 - z2)\<^sup>2))"

definition nearest_in :: "point3 list \<Rightarrow> point3 \<Rightarrow> nat \<Rightarrow> bool" where
  "nearest_in data x k \<longleftrightarrow>
     k < length data \<and> (\<forall>j<length data. euclid (data ! k) x \<le> euclid (data ! j) x)"

text \<open>
  The documented contract of \<^verbatim>\<open>cKDTree.query(x, k=1)\<close> with the default unbounded
  search radius: on a non-empty tree the answer is the index of a nearest data point. The
  library's documentation promises no more; in particular it names no rule for ties.
\<close>

definition kd_query_contract :: "kd_query \<Rightarrow> bool" where
  "kd_query_contract query \<longleftrightarrow>
     (\<forall>data x. data \<noteq> [] \<longrightarrow> nearest_in data x (query data x))"

text \<open>A linear scan that meets the contract: the brute-force recomputation the
  specification proposes as a test oracle. It instantiates the library parameter in the
  worked examples below.\<close>

fun first_min_index :: "real list \<Rightarrow> nat" where
  "first_min_index [] = 0"
| "first_min_index [d] = 0"
| "first_min_index (d # ds) =
     (let k = first_min_index ds in if d \<le> ds ! k then 0 else Suc k)"

definition brute_force_query :: kd_query where
  "brute_force_query data x = first_min_index (map (\<lambda>p. euclid p x) data)"


text \<open>The extent resolver of the specification: the bounding box, widened on each side
  by 5% of its width and height, each end clamped to its legal range.\<close>

definition clamp :: "real \<Rightarrow> real \<Rightarrow> real \<Rightarrow> real" where
  "clamp lo hi x = max lo (min hi x)"



definition legal_extent :: "real list \<Rightarrow> bool" where
  "legal_extent extent =
     (case extent of
        [min_lon, max_lon, min_lat, max_lat] \<Rightarrow>
          - 180 \<le> min_lon \<and> min_lon \<le> 180 \<and> - 180 \<le> max_lon \<and> max_lon \<le> 180 \<and>
          - 90 \<le> min_lat \<and> min_lat \<le> 90 \<and> - 90 \<le> max_lat \<and> max_lat \<le> 90
      | _ \<Rightarrow> False)"

text \<open>The padded window of the grid builder as the specification words it, per axis:
  the interval widened by 10% of its length at each end, both ends clamped to the legal
  range \<open>[-legal, legal]\<close>.\<close>

definition spec_window :: "real \<Rightarrow> real \<Rightarrow> real \<Rightarrow> real \<times> real" where
  "spec_window legal lo hi =
     (clamp (- legal) legal (lo - (hi - lo) * 0.1),
      clamp (- legal) legal (hi + (hi - lo) * 0.1))"

text \<open>\<open>n\<close> evenly spaced values spanning \<open>[lo, hi]\<close>: the first is \<open>lo\<close>, the last is
  \<open>hi\<close> when there are at least two, and neighbours differ by one common step.\<close>

definition evenly_spaced :: "real \<Rightarrow> real \<Rightarrow> nat \<Rightarrow> real list \<Rightarrow> bool" where
  "evenly_spaced lo hi n xs \<longleftrightarrow>
     length xs = n \<and>
     (0 < n \<longrightarrow> xs ! 0 = lo) \<and>
     (1 < n \<longrightarrow> xs ! (n - 1) = hi) \<and>
     (\<forall>i. Suc i < n \<longrightarrow> xs ! Suc i - xs ! i = (hi - lo) / real (n - 1))"

section \<open>Properties\<close>

subsection \<open>numpy primitives\<close>

lemma linspace_Inr:
  assumes "0 \<le> num"
  shows "\<exists>xs. linspace start stop num = Inr xs"
  using assms by (simp add: linspace_def Let_def)

lemma linspace_Inl: "num < 0 \<Longrightarrow> linspace start stop num = Inl ValueError"
  by (simp add: linspace_def)

lemma linspace_length:
  assumes "linspace start stop num = Inr xs"
  shows "length xs = nat num" and "0 \<le> num"
  using assms by (auto simp: linspace_def Let_def split: if_splits)

lemma linspace_nth:
  assumes "linspace start stop num = Inr xs" and "i < nat num"
  shows "xs ! i = start + real i * ((stop - start) / real (nat num - 1))"
proof (cases "nat num \<le> 1")
  case True
  with assms have "i = 0" by simp
  with assms True show ?thesis
    by (auto simp: linspace_def Let_def split: if_splits)
next
  case False
  then have n: "1 < nat num" by simp
  from assms n have xs: "xs = (map (\<lambda>i. real i * ((stop - start) / real (nat num - 1)) + start) [0..<nat num])[nat num - 1 := stop]"
    by (auto simp: linspace_def Let_def split: if_splits)
  show ?thesis
  proof (cases "i = nat num - 1")
    case True
    with n have "real i \<noteq> 0" by simp
    with True assms n show ?thesis unfolding xs by (simp add: field_simps)
  next
    case False
    with assms show ?thesis unfolding xs by simp
  qed
qed

lemma linspace_between:
  assumes "linspace start stop num = Inr xs" and "x \<in> set xs"
  shows "min start stop \<le> x \<and> x \<le> max start stop"
proof -
  from assms(2) obtain i where i: "i < length xs" "x = xs ! i"
    by (auto simp: in_set_conv_nth)
  with linspace_length(1)[OF assms(1)] have lt: "i < nat num" by simp
  define t where "t = real i / real (nat num - 1)"
  have t: "0 \<le> t" "t \<le> 1"
    using lt by (auto simp: t_def divide_le_eq_1)
  have "x = start + t * (stop - start)"
    using linspace_nth[OF assms(1) lt] i by (simp add: t_def)
  then have x: "x = (1 - t) * start + t * stop" by (simp add: algebra_simps)
  have "(1 - t) * min start stop + t * min start stop \<le> (1 - t) * start + t * stop"
    using t by (intro add_mono mult_left_mono) auto
  moreover have "(1 - t) * start + t * stop \<le> (1 - t) * max start stop + t * max start stop"
    using t by (intro add_mono mult_left_mono) auto
  ultimately show ?thesis unfolding x by (simp add: algebra_simps)
qed

lemma concat_const_rows_nth:
  assumes "i < length ys" and "j < length xs"
  shows "concat (map (\<lambda>_. xs) ys) ! (i * length xs + j) = xs ! j"
  using assms
proof (induction ys arbitrary: i)
  case Nil
  then show ?case by simp
next
  case (Cons y ys)
  show ?case
  proof (cases i)
    case 0
    with Cons.prems show ?thesis by (simp add: nth_append)
  next
    case (Suc k)
    with Cons.prems have "k < length ys" by simp
    from Cons.IH[OF this Cons.prems(2)] Suc show ?thesis
      by (simp add: nth_append add.assoc)
  qed
qed

lemma concat_const_cols_nth:
  assumes "i < length ys" and "j < length xs"
  shows "concat (map (\<lambda>y. map (\<lambda>_. y) xs) ys) ! (i * length xs + j) = ys ! i"
  using assms
proof (induction ys arbitrary: i)
  case Nil
  then show ?case by simp
next
  case (Cons y ys)
  show ?case
  proof (cases i)
    case 0
    with Cons.prems show ?thesis by (simp add: nth_append)
  next
    case (Suc k)
    with Cons.prems have "k < length ys" by simp
    from Cons.IH[OF this Cons.prems(2)] Suc show ?thesis
      by (simp add: nth_append add.assoc)
  qed
qed

lemma length_concat_rows: "length (concat (map (\<lambda>_. xs) ys)) = length ys * length xs"
  by (induction ys) simp_all

lemma length_concat_cols: "length (concat (map (\<lambda>y. map (\<lambda>_. y) xs) ys)) = length ys * length xs"
  by (induction ys) simp_all

lemma flat_index_less:
  assumes "i < (r::nat)" and "j < c"
  shows "i * c + j < r * c"
proof -
  have "i * c + j < i * c + c" using assms by simp
  also have "\<dots> = Suc i * c" by simp
  also have "\<dots> \<le> r * c" using assms by (intro mult_le_mono1) simp
  finally show ?thesis .
qed

subsection \<open>Coordinate projector\<close>

lemma geo_to_cartesian_zip:
  assumes "length lats = length lons"
  shows "geo_to_cartesian lats lons = Inr (map spec_unit_sphere (zip lats lons))"
proof -
  have "zip (map (\<lambda>(x, y). x * y) (zip (map (\<lambda>a. cos (deg2rad a)) lats) (map (\<lambda>a. cos (deg2rad a)) lons)))
          (zip (map (\<lambda>(x, y). x * y) (zip (map (\<lambda>a. cos (deg2rad a)) lats) (map (\<lambda>a. sin (deg2rad a)) lons)))
               (map (\<lambda>a. sin (deg2rad a)) lats))
        = map spec_unit_sphere (zip lats lons)"
    using assms
    by (induction lats lons rule: list_induct2)
       (simp_all add: spec_unit_sphere_def deg2rad_def Let_def)
  then show ?thesis
    using assms by (simp add: geo_to_cartesian_def np_mul_def column_stack_def Let_def o_def)
qed

subsection \<open>Grid, assignment and the whole pipeline\<close>

lemma meshgrid_shape:
  assumes "meshgrid xs ys = (gx, gy)"
  shows "shape gx = (length ys, length xs)" and "shape gy = (length ys, length xs)"
    and "length (flat gx) = length ys * length xs"
    and "length (flat gy) = length ys * length xs"
  using assms
  by (auto simp: meshgrid_def shape_def length_concat_rows length_concat_cols)

lemma meshgrid_item:
  assumes "meshgrid xs ys = (gx, gy)" and "i < length ys" and "j < length xs"
  shows "item gx i j = xs ! j" and "item gy i j = ys ! i"
  using assms concat_const_rows_nth[OF assms(2,3)] concat_const_cols_nth[OF assms(2,3)]
  by (auto simp: meshgrid_def item_def)

lemma build_grid_unfold:
  "build_grid [a, b, c, d] lat_n lon_n =
     and_then (linspace (max (- 90) (c - (d - c) * 0.1)) (min 90 (d + (d - c) * 0.1)) lat_n) (\<lambda>lats.
     and_then (linspace (max (- 180) (a - (b - a) * 0.1)) (min 180 (b + (b - a) * 0.1)) lon_n) (\<lambda>lons.
       Inr (lats, lons, fst (meshgrid lons lats), snd (meshgrid lons lats))))"
  by (simp add: build_grid_def Let_def split: prod.splits)

lemma build_grid_Inr:
  assumes "build_grid extent lat_n lon_n = Inr (lats, lons, gx, gy)"
  obtains a b c d where "extent = [a, b, c, d]"
    and "linspace (max (- 90) (c - (d - c) * 0.1)) (min 90 (d + (d - c) * 0.1)) lat_n = Inr lats"
    and "linspace (max (- 180) (a - (b - a) * 0.1)) (min 180 (b + (b - a) * 0.1)) lon_n = Inr lons"
    and "meshgrid lons lats = (gx, gy)"
proof -
  from assms obtain a b c d where e: "extent = [a, b, c, d]"
    by (auto simp: build_grid_def split: list.splits)
  from assms show ?thesis
    unfolding e build_grid_unfold
    by (intro that[OF e]) (auto simp: and_then_def split: sum.splits)
qed

lemma assign_nearest_meshgrid:
  assumes "meshgrid lons lats = (gx, gy)"
  shows "assign_nearest query pts gx gy =
           (if pts = [] then Inl IndexError
            else Inr \<lparr>nrows = length lats, ncols = length lons,
                      flat = map (\<lambda>p. query (map spec_unit_sphere pts) (spec_unit_sphere p))
                                 (zip (flat gy) (flat gx))\<rparr>)"
proof -
  have len: "length (flat gy) = length (flat gx)"
    using meshgrid_shape(3,4)[OF assms] by simp
  have grid: "geo_to_cartesian (ravel gy) (ravel gx) = Inr (map spec_unit_sphere (zip (flat gy) (flat gx)))"
    unfolding ravel_def by (rule geo_to_cartesian_zip[OF len])
  have pts: "geo_to_cartesian (map fst pts) (map snd pts) = Inr (map spec_unit_sphere pts)"
    using geo_to_cartesian_zip[of "map fst pts" "map snd pts"] by (simp add: zip_map_fst_snd)
  have sh: "shape gx = (length lats, length lons)"
    by (rule meshgrid_shape(1)[OF assms])
  have n: "min (length (flat gy)) (length (flat gx)) = length lats * length lons"
    using meshgrid_shape(3,4)[OF assms] by simp
  show ?thesis
    unfolding assign_nearest_def grid
    by (simp add: and_then_def columns_def pts sh reshape_def n o_def)
qed

lemma assign_nearest_item:
  assumes "meshgrid lons lats = (gx, gy)"
    and "assign_nearest query pts gx gy = Inr nc"
    and "i < length lats" and "j < length lons"
  shows "item nc i j = query (map spec_unit_sphere pts) (spec_unit_sphere (lats ! i, lons ! j))"
proof -
  from assms(2) have nc: "nc = \<lparr>nrows = length lats, ncols = length lons,
      flat = map (\<lambda>p. query (map spec_unit_sphere pts) (spec_unit_sphere p)) (zip (flat gy) (flat gx))\<rparr>"
    unfolding assign_nearest_meshgrid[OF assms(1)] by (simp split: if_splits)
  have k: "i * length lons + j < length lats * length lons"
    using assms(3,4) by (rule flat_index_less)
  have "flat gx ! (i * length lons + j) = lons ! j" "flat gy ! (i * length lons + j) = lats ! i"
    using meshgrid_item[OF assms(1,3,4)] meshgrid_shape(1,2)[OF assms(1)]
    by (simp_all add: item_def shape_def)
  then show ?thesis
    using k meshgrid_shape(3,4)[OF assms(1)] by (simp add: nc item_def)
qed

lemma generate_voronoi_map_Inr:
  assumes "generate_voronoi_map query read_file points geojson_path extent point_colors
             plugin_path draw_plugin fill_ocean lat_n lon_n = (reads, Inr fig)"
  obtains wreads lats lons where
        "load_world read_file geojson_path = (wreads, Inr (fig_world fig))"
    and "fig_extent fig = resolve_extent extent (fig_world fig)"
    and "build_grid (fig_extent fig) lat_n lon_n = Inr (lats, lons, fig_lon_grid fig, fig_lat_grid fig)"
    and "assign_nearest query points (fig_lon_grid fig) (fig_lat_grid fig) = Inr (fig_nearest_city fig)"
    and "reads = wreads @ fst (draw_plugin_map read_file plugin_path draw_plugin)"
    and "fig_plugin_map fig = snd (draw_plugin_map read_file plugin_path draw_plugin)"
    and "fig_colors fig = take (length points) point_colors"
    and "fig_ocean fig = fill_ocean"
  using assms
  by (auto simp: generate_voronoi_map_def and_then_def Let_def split: prod.splits sum.splits)

lemma generate_voronoi_map_success:
  assumes "load_world read_file geojson_path = (wreads, Inr world)"
    and "build_grid (resolve_extent extent world) lat_n lon_n = Inr (lats, lons, gx, gy)"
    and "assign_nearest query points gx gy = Inr nc"
  shows "generate_voronoi_map query read_file points geojson_path extent point_colors
             plugin_path draw_plugin fill_ocean lat_n lon_n =
           (wreads @ fst (draw_plugin_map read_file plugin_path draw_plugin),
            Inr \<lparr>fig_lon_grid = gx, fig_lat_grid = gy, fig_nearest_city = nc,
                 fig_colors = take (length points) point_colors,
                 fig_world = world,
                 fig_plugin_map = snd (draw_plugin_map read_file plugin_path draw_plugin),
                 fig_scatter = map (\<lambda>(lat, lon). (lon, lat)) points,
                 fig_ocean = fill_ocean,
                 fig_extent = resolve_extent extent world\<rparr>)"
  using assms
  by (simp add: generate_voronoi_map_def and_then_def Let_def split: prod.splits)

lemma resolve_extent_length: "length (resolve_extent extent world) = 4"
  by (auto simp: resolve_extent_def Let_def split: prod.splits option.splits)

lemma first_min_index_least:
  assumes "ds \<noteq> []"
  shows "first_min_index ds < length ds \<and> (\<forall>j<length ds. ds ! first_min_index ds \<le> ds ! j)"
  using assms
proof (induction ds rule: first_min_index.induct)
  case 1
  then show ?case by simp
next
  case (2 d)
  then show ?case by simp
next
  case (3 d e es)
  let ?k = "first_min_index (e # es)"
  from 3 have IH: "?k < length (e # es)" "\<And>j. j < length (e # es) \<Longrightarrow> (e # es) ! ?k \<le> (e # es) ! j"
    by auto
  show ?case
  proof (cases "d \<le> (e # es) ! ?k")
    case True
    have "(d # e # es) ! 0 \<le> (d # e # es) ! j" if "j < length (d # e # es)" for j
    proof (cases j)
      case 0
      then show ?thesis by simp
    next
      case (Suc m)
      with that have "m < length (e # es)" by simp
      from IH(2)[OF this] True Suc show ?thesis by simp
    qed
    with True show ?thesis by (simp add: Let_def)
  next
    case False
    have "(e # es) ! ?k \<le> (d # e # es) ! j" if "j < length (d # e # es)" for j
    proof (cases j)
      case 0
      with False show ?thesis by simp
    next
      case (Suc m)
      with that have "m < length (e # es)" by simp
      from IH(2)[OF this] Suc show ?thesis by simp
    qed
    with False IH(1) show ?thesis by (simp add: Let_def)
  qed
qed

lemma brute_force_query_contract: "kd_query_contract brute_force_query"
proof -
  have "nearest_in data x (brute_force_query data x)" if "data \<noteq> []" for data x
  proof -
    let ?ds = "map (\<lambda>p. euclid p x) data"
    from that have "?ds \<noteq> []" by simp
    from first_min_index_least[OF this]
    have k': "first_min_index ?ds < length ?ds"
      and le: "\<forall>j<length ?ds. ?ds ! first_min_index ?ds \<le> ?ds ! j"
      by blast+
    from k' have k: "first_min_index ?ds < length data" by simp
    have "euclid (data ! first_min_index ?ds) x \<le> euclid (data ! j) x" if "j < length data" for j
    proof -
      from that have "j < length ?ds" by simp
      with le have "?ds ! first_min_index ?ds \<le> ?ds ! j" by blast
      with k that show ?thesis by simp
    qed
    with k show ?thesis
      by (simp add: nearest_in_def brute_force_query_def)
  qed
  then show ?thesis by (simp add: kd_query_contract_def)
qed

lemma resolve_extent_four:
  obtains a b c d where "resolve_extent extent world = [a, b, c, d]"
proof -
  have "length (resolve_extent extent world) = 4" by (rule resolve_extent_length)
  then obtain a b c d where "resolve_extent extent world = [a, b, c, d]"
    by (auto simp: length_Suc_conv eval_nat_numeral)
  then show ?thesis by (rule that)
qed

lemma build_grid_total:
  assumes "0 \<le> lat_n" and "0 \<le> lon_n"
  shows "\<exists>lats lons gx gy. build_grid [a, b, c, d] lat_n lon_n = Inr (lats, lons, gx, gy)"
proof -
  from linspace_Inr[OF assms(1)] obtain lats where
    "linspace (max (- 90) (c - (d - c) * 0.1)) (min 90 (d + (d - c) * 0.1)) lat_n = Inr lats" by blast
  moreover from linspace_Inr[OF assms(2)] obtain lons where
    "linspace (max (- 180) (a - (b - a) * 0.1)) (min 180 (b + (b - a) * 0.1)) lon_n = Inr lons" by blast
  ultimately show ?thesis
    unfolding build_grid_unfold by (simp add: and_then_def)
qed

lemma generate_voronoi_map_total:
  assumes "load_world read_file geojson_path = (wreads, Inr world)"
    and "points \<noteq> []" and "0 \<le> lat_n" and "0 \<le> lon_n"
  shows "\<exists>reads fig. generate_voronoi_map query read_file points geojson_path extent point_colors
             plugin_path draw_plugin fill_ocean lat_n lon_n = (reads, Inr fig)"
proof -
  obtain a b c d where e: "resolve_extent extent world = [a, b, c, d]"
    by (rule resolve_extent_four)
  from build_grid_total[OF assms(3,4)] obtain lats lons gx gy where
    g: "build_grid (resolve_extent extent world) lat_n lon_n = Inr (lats, lons, gx, gy)"
    unfolding e by blast
  then have m: "meshgrid lons lats = (gx, gy)"
    by (rule build_grid_Inr)
  from assms(2) obtain nc where "assign_nearest query points gx gy = Inr nc"
    unfolding assign_nearest_meshgrid[OF m] by simp
  from generate_voronoi_map_success[OF assms(1) g this] show ?thesis by blast
qed

lemma assign_nearest_shape:
  assumes "meshgrid lons lats = (gx, gy)"
    and "assign_nearest query pts gx gy = Inr nc"
  shows "shape nc = (length lats, length lons)"
proof -
  from assms(2) have "nc = \<lparr>nrows = length lats, ncols = length lons,
      flat = map (\<lambda>p. query (map spec_unit_sphere pts) (spec_unit_sphere p)) (zip (flat gy) (flat gx))\<rparr>"
    unfolding assign_nearest_meshgrid[OF assms(1)] by (simp split: if_splits)
  then show ?thesis by (simp add: shape_def)
qed

lemma linspace_evenly_spaced:
  assumes "linspace lo hi num = Inr xs"
  shows "evenly_spaced lo hi (nat num) xs"
proof -
  have len: "length xs = nat num" by (rule linspace_length(1)[OF assms])
  have nth: "xs ! i = lo + real i * ((hi - lo) / real (nat num - 1))" if "i < nat num" for i
    by (rule linspace_nth[OF assms that])
  have first: "xs ! 0 = lo" if "0 < nat num"
    using nth[OF that] by simp
  have last: "xs ! (nat num - 1) = hi" if "1 < nat num"
  proof -
    from that have "nat num - 1 < nat num" "real (nat num - 1) \<noteq> 0" by simp_all
    with nth[of "nat num - 1"] show ?thesis by simp
  qed
  have step: "xs ! Suc i - xs ! i = (hi - lo) / real (nat num - 1)" if h: "Suc i < nat num" for i
  proof -
    from h have h': "i < nat num" by simp
    define s where "s = (hi - lo) / real (nat num - 1)"
    from nth[OF h] nth[OF h'] have "xs ! Suc i = lo + real (Suc i) * s" "xs ! i = lo + real i * s"
      by (simp_all only: s_def)
    then show ?thesis unfolding s_def[symmetric] by (simp add: algebra_simps)
  qed
  from len first last step show ?thesis
    unfolding evenly_spaced_def by blast
qed

lemma clamp_low: "x \<le> hi \<Longrightarrow> clamp lo hi x = max lo x"
  by (simp add: clamp_def)

lemma clamp_high: "lo \<le> x \<Longrightarrow> lo \<le> hi \<Longrightarrow> clamp lo hi x = min hi x"
  by (simp add: clamp_def)

lemma load_world_fallback:
  assumes "read_file geojson_path = Inl e"
  shows "load_world read_file geojson_path
           = ([geojson_path, naturalearth_lowres], read_file naturalearth_lowres)"
  using assms by (simp add: load_world_def)

lemma generate_voronoi_map_load_failure:
  assumes "load_world read_file geojson_path = (wreads, Inl e)"
  shows "generate_voronoi_map query read_file points geojson_path extent point_colors
           plugin_path draw_plugin fill_ocean lat_n lon_n = (wreads, Inl e)"
  using assms by (simp add: generate_voronoi_map_def)

lemma api_generate_map_valid:
  assumes "points_json req = Some pts" and "extent_json req = Some ext"
    and "colors_json req = Some cols"
    and "2 \<le> length pts" and "length pts \<le> 30" and "length cols = length pts"
  shows "api_generate_map query read_file req =
           (case snd (generate_voronoi_map query read_file pts
                        (os_path_join UPLOAD_DIR (filename req)) ext cols
                        (case plugin_filename req of None \<Rightarrow> None
                         | Some name \<Rightarrow> Some (os_path_join UPLOAD_DIR (''plugin_'' @ name)))
                        (req_draw_plugin req) (req_fill_ocean req)
                        (fst (dict_get RESOLUTION_MAP (resolution req) (1200, 2400)))
                        (snd (dict_get RESOLUTION_MAP (resolution req) (1200, 2400)))) of
              Inr img_buf \<Rightarrow> Inr img_buf
            | Inl e \<Rightarrow> Inl (HTTPException 500 (ExceptionText e)))"
  using assms by (simp add: api_generate_map_def Let_def split: prod.splits)

lemma generate_voronoi_map_raster:
  "map_sum id (\<lambda>fig. (fig_lon_grid fig, fig_lat_grid fig, fig_nearest_city fig, fig_extent fig))
     (snd (generate_voronoi_map query read_file points geojson_path extent point_colors
             plugin_path draw_plugin fill_ocean lat_n lon_n))
   = (case load_world read_file geojson_path of
        (reads, Inl e) \<Rightarrow> Inl e
      | (reads, Inr world) \<Rightarrow>
          and_then (build_grid (resolve_extent extent world) lat_n lon_n) (\<lambda>(lats, lons, lon_grid, lat_grid).
          and_then (assign_nearest query points lon_grid lat_grid) (\<lambda>nearest_city.
            Inr (lon_grid, lat_grid, nearest_city, resolve_extent extent world))))"
  by (simp add: generate_voronoi_map_def and_then_def Let_def split: prod.splits sum.splits)

lemma meshgrid_set:
  assumes "meshgrid xs ys = (gx, gy)"
  shows "set (flat gx) \<subseteq> set xs" and "set (flat gy) \<subseteq> set ys"
  using assms by (auto simp: meshgrid_def split: if_splits)

lemma generate_voronoi_map_shape:
  assumes "generate_voronoi_map query read_file points geojson_path extent point_colors
             plugin_path draw_plugin fill_ocean lat_n lon_n = (reads, Inr fig)"
  shows "shape (fig_nearest_city fig) = (nat lat_n, nat lon_n)"
    and "shape (fig_lon_grid fig) = (nat lat_n, nat lon_n)"
    and "shape (fig_lat_grid fig) = (nat lat_n, nat lon_n)"
proof -
  from assms obtain lats lons where
    g: "build_grid (fig_extent fig) lat_n lon_n = Inr (lats, lons, fig_lon_grid fig, fig_lat_grid fig)"
    and a: "assign_nearest query points (fig_lon_grid fig) (fig_lat_grid fig) = Inr (fig_nearest_city fig)"
    by (rule generate_voronoi_map_Inr)
  from g obtain lo hi lo' hi' where
    lats: "linspace lo hi lat_n = Inr lats" and lons: "linspace lo' hi' lon_n = Inr lons"
    and m: "meshgrid lons lats = (fig_lon_grid fig, fig_lat_grid fig)"
    by (rule build_grid_Inr)
  have len: "length lats = nat lat_n" "length lons = nat lon_n"
    using linspace_length(1)[OF lats] linspace_length(1)[OF lons] by simp_all
  show "shape (fig_nearest_city fig) = (nat lat_n, nat lon_n)"
    using assign_nearest_shape[OF m a] len by simp
  show "shape (fig_lon_grid fig) = (nat lat_n, nat lon_n)"
    and "shape (fig_lat_grid fig) = (nat lat_n, nat lon_n)"
    using meshgrid_shape(1,2)[OF m] len by simp_all
qed

text \<open>The values of the grid of a returned figure lie between the ends of the window.\<close>

lemma generate_voronoi_map_grid_between:
  assumes "generate_voronoi_map query read_file points geojson_path extent point_colors
             plugin_path draw_plugin fill_ocean lat_n lon_n = (reads, Inr fig)"
    and "fig_extent fig = [a, b, c, d]"
  shows "\<forall>lat\<in>set (flat (fig_lat_grid fig)).
           min (max (- 90) (c - (d - c) * 0.1)) (min 90 (d + (d - c) * 0.1)) \<le> lat \<and>
           lat \<le> max (max (- 90) (c - (d - c) * 0.1)) (min 90 (d + (d - c) * 0.1))"
    and "\<forall>lon\<in>set (flat (fig_lon_grid fig)).
           min (max (- 180) (a - (b - a) * 0.1)) (min 180 (b + (b - a) * 0.1)) \<le> lon \<and>
           lon \<le> max (max (- 180) (a - (b - a) * 0.1)) (min 180 (b + (b - a) * 0.1))"
proof -
  from assms(1) obtain lats lons where
    g: "build_grid (fig_extent fig) lat_n lon_n = Inr (lats, lons, fig_lon_grid fig, fig_lat_grid fig)"
    by (rule generate_voronoi_map_Inr)
  from g obtain a' b' c' d' where e: "fig_extent fig = [a', b', c', d']"
    and lats: "linspace (max (- 90) (c' - (d' - c') * 0.1)) (min 90 (d' + (d' - c') * 0.1)) lat_n = Inr lats"
    and lons: "linspace (max (- 180) (a' - (b' - a') * 0.1)) (min 180 (b' + (b' - a') * 0.1)) lon_n = Inr lons"
    and m: "meshgrid lons lats = (fig_lon_grid fig, fig_lat_grid fig)"
    by (rule build_grid_Inr)
  from e assms(2) have eq: "a' = a" "b' = b" "c' = c" "d' = d" by simp_all
  show "\<forall>lat\<in>set (flat (fig_lat_grid fig)).
           min (max (- 90) (c - (d - c) * 0.1)) (min 90 (d + (d - c) * 0.1)) \<le> lat \<and>
           lat \<le> max (max (- 90) (c - (d - c) * 0.1)) (min 90 (d + (d - c) * 0.1))"
    using linspace_between[OF lats] meshgrid_set(2)[OF m] unfolding eq by blast
  show "\<forall>lon\<in>set (flat (fig_lon_grid fig)).
           min (max (- 180) (a - (b - a) * 0.1)) (min 180 (b + (b - a) * 0.1)) \<le> lon \<and>
           lon \<le> max (max (- 180) (a - (b - a) * 0.1)) (min 180 (b + (b - a) * 0.1))"
    using linspace_between[OF lons] meshgrid_set(1)[OF m] unfolding eq by blast
qed

lemma generate_voronoi_map_grids:
  assumes "load_world read_file geojson_path = (wreads, Inr world)"
    and "points \<noteq> []"
    and "resolve_extent extent world = [a, b, c, d]"
    and "linspace (max (- 90) (c - (d - c) * 0.1)) (min 90 (d + (d - c) * 0.1)) lat_n = Inr lats"
    and "linspace (max (- 180) (a - (b - a) * 0.1)) (min 180 (b + (b - a) * 0.1)) lon_n = Inr lons"
  shows "map_sum id (\<lambda>fig. (fig_extent fig, flat (fig_lat_grid fig), flat (fig_lon_grid fig)))
           (snd (generate_voronoi_map query read_file points geojson_path extent point_colors
                   plugin_path draw_plugin fill_ocean lat_n lon_n))
         = Inr ([a, b, c, d], concat (map (\<lambda>y. map (\<lambda>_. y) lons) lats), concat (map (\<lambda>_. lons) lats))"
proof -
  obtain gx gy where m: "meshgrid lons lats = (gx, gy)" by (cases "meshgrid lons lats")
  have g: "build_grid (resolve_extent extent world) lat_n lon_n = Inr (lats, lons, gx, gy)"
    unfolding assms(3) build_grid_unfold using assms(4,5) by (simp add: and_then_def m)
  from assms(2) obtain nc where n: "assign_nearest query points gx gy = Inr nc"
    unfolding assign_nearest_meshgrid[OF m] by simp
  from m have "flat gx = concat (map (\<lambda>_. lons) lats)"
    "flat gy = concat (map (\<lambda>y. map (\<lambda>_. y) lons) lats)"
    by (auto simp: meshgrid_def)
  then show ?thesis
    unfolding generate_voronoi_map_success[OF assms(1) g n] by (simp add: assms(3))
qed

lemma RESOLUTION_MAP_default:
  assumes "r \<notin> {''low'', ''medium'', ''high''}"
  shows "dict_get RESOLUTION_MAP r (1200, 2400) = (1200, 2400)"
  using assms by (simp add: dict_get_def RESOLUTION_MAP_def)

lemma RESOLUTION_MAP_medium: "dict_get RESOLUTION_MAP ''medium'' (1200, 2400) = (1200, 2400)"
  by (simp add: dict_get_def RESOLUTION_MAP_def)

lemma api_generate_map_resolution:
  assumes "dict_get RESOLUTION_MAP (resolution req) (1200, 2400)
             = dict_get RESOLUTION_MAP (resolution req') (1200, 2400)"
    and "req' = req\<lparr>resolution := r\<rparr>"
  shows "api_generate_map query read_file req = api_generate_map query read_file req'"
  using assms by (simp add: api_generate_map_def Let_def split: option.splits prod.splits)

text \<open>The window the code spans agrees with the clamped window of the specification
  whenever the padded lower end does not exceed the upper legal bound and the padded
  upper end is not below the lower one.\<close>

lemma spec_window_one_sided:
  assumes "lo - (hi - lo) * 0.1 \<le> legal" and "- legal \<le> hi + (hi - lo) * 0.1"
    and "0 \<le> legal"
  shows "spec_window legal lo hi =
           (max (- legal) (lo - (hi - lo) * 0.1), min legal (hi + (hi - lo) * 0.1))"
proof -
  have "clamp (- legal) legal (lo - (hi - lo) * 0.1) = max (- legal) (lo - (hi - lo) * 0.1)"
    using assms(1) by (rule clamp_low)
  moreover have "clamp (- legal) legal (hi + (hi - lo) * 0.1) = min legal (hi + (hi - lo) * 0.1)"
    using assms(2,3) by (intro clamp_high) simp_all
  ultimately show ?thesis
    unfolding spec_window_def by simp
qed

lemma assign_nearest_length:
  assumes "meshgrid lons lats = (gx, gy)"
    and "assign_nearest query pts gx gy = Inr nc"
  shows "length (flat nc) = length lats * length lons"
proof -
  from assms(2) have "nc = \<lparr>nrows = length lats, ncols = length lons,
      flat = map (\<lambda>p. query (map spec_unit_sphere pts) (spec_unit_sphere p)) (zip (flat gy) (flat gx))\<rparr>"
    unfolding assign_nearest_meshgrid[OF assms(1)] by (simp split: if_splits)
  then show ?thesis
    using meshgrid_shape(3,4)[OF assms(1)] by simp
qed

lemma kd_query_contractD:
  assumes "kd_query_contract query" and "data \<noteq> []"
  shows "nearest_in data x (query data x)"
  using assms unfolding kd_query_contract_def by blast

text \<open>
  The contract leaves ties open. Two queries meet it and differ on two coincident sites:
  the linear scan answers with the lower index, the other with the higher one. What
  \<^verbatim>\<open>generate_voronoi_map\<close> returns at an equidistant grid point is therefore whatever the
  library returns; the source adds no rule of its own after the query.
\<close>

lemma kd_query_contract_leaves_ties_open:
  "\<exists>query query'. kd_query_contract query \<and> kd_query_contract query' \<and>
     query [p, p] x = 0 \<and> query' [p, p] x = 1"
proof -
  define q' :: kd_query where
    "q' = (\<lambda>data y. if length data = 2 \<and> euclid (data ! 1) y \<le> euclid (data ! 0) y
                      then 1 else brute_force_query data y)"
  have "nearest_in data y (q' data y)" if "data \<noteq> []" for data y
  proof (cases "length data = 2 \<and> euclid (data ! 1) y \<le> euclid (data ! 0) y")
    case True
    then have "euclid (data ! 1) y \<le> euclid (data ! j) y" if "j < length data" for j
      using that by (cases j) simp_all
    with True show ?thesis by (simp add: q'_def nearest_in_def)
  next
    case False
    then have "q' data y = brute_force_query data y"
      unfolding q'_def by (rule if_not_P)
    with kd_query_contractD[OF brute_force_query_contract that, of y] show ?thesis
      by simp
  qed
  then have "kd_query_contract q'" unfolding kd_query_contract_def by blast
  moreover have "q' [p, p] x = 1" by (simp add: q'_def)
  moreover have "brute_force_query [p, p] x = 0" by (simp add: brute_force_query_def)
  ultimately show ?thesis using brute_force_query_contract by blast
qed

text \<open>An ordered extent inside the legal ranges has a padded window whose lower ends do
  not exceed the upper legal bounds and whose upper ends are not below the lower ones.\<close>

lemma legal_ordered_extent_window:
  assumes "legal_extent [min_lon, max_lon, min_lat, max_lat]"
    and "min_lon \<le> max_lon" and "min_lat \<le> max_lat"
  shows "min_lon - (max_lon - min_lon) * 0.1 \<le> 180"
    and "- 180 \<le> max_lon + (max_lon - min_lon) * 0.1"
    and "min_lat - (max_lat - min_lat) * 0.1 \<le> 90"
    and "- 90 \<le> max_lat + (max_lat - min_lat) * 0.1"
proof -
  from assms(1) have "min_lon \<le> 180" "- 180 \<le> max_lon" "min_lat \<le> 90" "- 90 \<le> max_lat"
    by (simp_all add: legal_extent_def)
  with assms(2,3) show "min_lon - (max_lon - min_lon) * 0.1 \<le> 180"
    and "- 180 \<le> max_lon + (max_lon - min_lon) * 0.1"
    and "min_lat - (max_lat - min_lat) * 0.1 \<le> 90"
    and "- 90 \<le> max_lat + (max_lat - min_lat) * 0.1"
    by (simp_all add: field_simps)
qed

subsection \<open>A worked example\<close>

text \<open>
  Two sites, \<open>(0, 0)\<close> and \<open>(0, 90)\<close>, on the whole globe at resolution \<open>3 \<times> 3\<close>, with
  the linear scan as tree query. The grid latitudes are \<open>-90, 0, 90\<close>, the longitudes
  \<open>-180, 0, 180\<close>. Both poles are equidistant from the two sites.
\<close>

lemma sqrt2_less_2: "sqrt 2 < 2"
  using real_sqrt_less_iff[of 2 4] by simp

lemma example_grid_projection:
  "map spec_unit_sphere
     [(- 90, - 180), (- 90, 0), (- 90, 180), (0, - 180), (0, 0), (0, 180), (90, - 180), (90, 0), (90, 180)]
   = [(0, 0, - 1), (0, 0, - 1), (0, 0, - 1), (- 1, 0, 0), (1, 0, 0), (- 1, 0, 0),
      (0, 0, 1), (0, 0, 1), (0, 0, 1)]"
  by (simp add: spec_unit_sphere_def Let_def)

lemma example_queries:
  "map (brute_force_query [(1, 0, 0), (0, 1, 0)])
     [(0, 0, - 1), (0, 0, - 1), (0, 0, - 1), (- 1, 0, 0), (1, 0, 0), (- 1, 0, 0),
      (0, 0, 1), (0, 0, 1), (0, 0, 1)]
   = [0, 0, 0, 1, 0, 1, 0, 0, 0]"
  using sqrt2_less_2 by (simp add: brute_force_query_def euclid_def Let_def)

lemma example_raster:
  "map_sum id (\<lambda>fig. (fig_nearest_city fig))
     (snd (generate_voronoi_map brute_force_query (\<lambda>_. Inr \<lparr>total_bounds = (0, 0, 10, 10)\<rparr>)
        [(0, 0), (0, 90)] ''world.geojson'' (Some [- 180, 180, - 90, 90]) [''red'', ''blue'']
        None False True 3 3))
   = Inr \<lparr>nrows = 3, ncols = 3, flat = [0, 0, 0, 1, 0, 1, 0, 0, 0]\<rparr>"
proof -
  let ?w = "\<lparr>total_bounds = (0::real, 0::real, 10::real, 10::real)\<rparr>"
  let ?rf = "\<lambda>_::string. Inr ?w :: py_exception + geodataframe"
  let ?pts = "[(0::real, 0::real), (0, 90)]"
  let ?lats = "[- 90, 0, 90 :: real]"
  let ?lons = "[- 180, 0, 180 :: real]"
  have l: "load_world ?rf ''world.geojson'' = ([''world.geojson''], Inr ?w)"
    by (simp add: load_world_def)
  have r: "resolve_extent (Some [- 180, 180, - 90, 90]) ?w = [- 180, 180, - 90, 90]"
    by (simp add: resolve_extent_def)
  obtain gx gy where m: "meshgrid ?lons ?lats = (gx, gy)" by (cases "meshgrid ?lons ?lats")
  then have fl: "flat gx = [- 180, 0, 180, - 180, 0, 180, - 180, 0, 180]"
    "flat gy = [- 90, - 90, - 90, 0, 0, 0, 90, 90, 90]"
    by (auto simp: meshgrid_def)
  have g: "build_grid (resolve_extent (Some [- 180, 180, - 90, 90]) ?w) 3 3 = Inr (?lats, ?lons, gx, gy)"
    unfolding r build_grid_unfold
    by (simp add: linspace_def Let_def upt_conv_Cons eval_nat_numeral and_then_def m)
  have sites: "map spec_unit_sphere ?pts = [(1, 0, 0), (0, 1, 0)]"
    by (simp add: spec_unit_sphere_def Let_def)
  have a: "assign_nearest brute_force_query ?pts gx gy
             = Inr \<lparr>nrows = 3, ncols = 3, flat = [0, 0, 0, 1, 0, 1, 0, 0, 0]\<rparr>"
    unfolding assign_nearest_meshgrid[OF m] sites fl
    using example_queries example_grid_projection by (simp add: o_def)
  show ?thesis
    unfolding generate_voronoi_map_success[OF l g a] by simp
qed

section \<open>Claims\<close>

text \<open>
  Claim C8. For every batch of (latitude, longitude) pairs in degrees,
  \<^verbatim>\<open>geo_to_cartesian\<close>, called with the column of latitudes and the column of longitudes,
  raises nothing and returns, row by row, the point
  \<open>(cos lat * cos lon, cos lat * sin lon, sin lat)\<close> with \<open>lat\<close> and \<open>lon\<close> converted
  from degrees to radians. The result depends on the batch alone: the model is a function
  of its two arguments and reads or writes nothing else.
\<close>

theorem geo_to_cartesian_unit_sphere:
  "geo_to_cartesian (map fst ps) (map snd ps) = Inr (map spec_unit_sphere ps)"
proof -
  have "zip (map fst ps) (map snd ps) = ps"
    by (simp add: zip_map_fst_snd)
  then show ?thesis
    using geo_to_cartesian_zip [of "map fst ps" "map snd ps"] by simp
qed

text \<open>
  Claim C1. Let \<^verbatim>\<open>generate_voronoi_map\<close> return, with a tree query that meets the
  library's contract. Then for every grid sample \<open>(i, j)\<close>, \<open>i < lat_n\<close> and
  \<open>j < lon_n\<close>, the entry \<open>nearest_city[i, j]\<close> is the index of a site whose
  unit-sphere projection is at minimal Euclidean distance from the projection of the
  sample \<open>(lat_grid[i, j], lon_grid[i, j])\<close>, among the projections of all \<open>N\<close> sites;
  so every entry is below \<open>N\<close>, and the raster has the shape of the grid.
\<close>

theorem nearest_city_is_nearest:
  assumes "kd_query_contract query"
    and "generate_voronoi_map query read_file points geojson_path extent point_colors
           plugin_path draw_plugin fill_ocean lat_n lon_n = (reads, Inr fig)"
    and "i < nat lat_n" and "j < nat lon_n"
  shows "nearest_in (map spec_unit_sphere points)
           (spec_unit_sphere (item (fig_lat_grid fig) i j, item (fig_lon_grid fig) i j))
           (item (fig_nearest_city fig) i j)
         \<and> item (fig_nearest_city fig) i j < length points
         \<and> shape (fig_nearest_city fig) = (nat lat_n, nat lon_n)"
proof -
  from assms(2) obtain lats lons where
    g: "build_grid (fig_extent fig) lat_n lon_n = Inr (lats, lons, fig_lon_grid fig, fig_lat_grid fig)"
    and a: "assign_nearest query points (fig_lon_grid fig) (fig_lat_grid fig) = Inr (fig_nearest_city fig)"
    by (rule generate_voronoi_map_Inr)
  from g obtain lo hi lo' hi' where
    lats: "linspace lo hi lat_n = Inr lats" and lons: "linspace lo' hi' lon_n = Inr lons"
    and m: "meshgrid lons lats = (fig_lon_grid fig, fig_lat_grid fig)"
    by (rule build_grid_Inr)
  have len: "length lats = nat lat_n" "length lons = nat lon_n"
    using linspace_length(1)[OF lats] linspace_length(1)[OF lons] by simp_all
  with assms(3,4) have ij: "i < length lats" "j < length lons" by simp_all
  from a have ne: "points \<noteq> []"
    unfolding assign_nearest_meshgrid[OF m] by (simp split: if_splits)
  have sh: "shape (fig_nearest_city fig) = (nat lat_n, nat lon_n)"
    using assign_nearest_shape[OF m a] len by simp
  have pt: "item (fig_lat_grid fig) i j = lats ! i" "item (fig_lon_grid fig) i j = lons ! j"
    using meshgrid_item[OF m ij] by simp_all
  have "item (fig_nearest_city fig) i j =
          query (map spec_unit_sphere points) (spec_unit_sphere (lats ! i, lons ! j))"
    by (rule assign_nearest_item[OF m a ij])
  moreover from assms(1) ne have
    "nearest_in (map spec_unit_sphere points) (spec_unit_sphere (lats ! i, lons ! j))
       (query (map spec_unit_sphere points) (spec_unit_sphere (lats ! i, lons ! j)))"
    unfolding kd_query_contract_def by blast
  ultimately have n: "nearest_in (map spec_unit_sphere points)
      (spec_unit_sphere (item (fig_lat_grid fig) i j, item (fig_lon_grid fig) i j))
      (item (fig_nearest_city fig) i j)"
    by (simp add: pt)
  then have "item (fig_nearest_city fig) i j < length points"
    by (simp add: nearest_in_def)
  with n sh show ?thesis by simp
qed

theorem nearest_city_is_nearest_witness:
  "kd_query_contract brute_force_query \<and>
   (\<exists>reads fig.
      generate_voronoi_map brute_force_query (\<lambda>_. Inr \<lparr>total_bounds = (0, 0, 10, 10)\<rparr>)
        [(0, 0), (0, 90)] ''world.geojson'' (Some [- 180, 180, - 90, 90]) [''red'', ''blue'']
        None False True 3 3 = (reads, Inr fig) \<and>
      nearest_in (map spec_unit_sphere [(0, 0), (0, 90)])
        (spec_unit_sphere (item (fig_lat_grid fig) 1 1, item (fig_lon_grid fig) 1 1))
        (item (fig_nearest_city fig) 1 1) \<and>
      item (fig_nearest_city fig) 1 1 < 2 \<and>
      shape (fig_nearest_city fig) = (3, 3) \<and>
      fig_nearest_city fig = \<lparr>nrows = 3, ncols = 3, flat = [0, 0, 0, 1, 0, 1, 0, 0, 0]\<rparr>)"
proof -
  let ?rf = "\<lambda>_::string. Inr \<lparr>total_bounds = (0::real, 0::real, 10::real, 10::real)\<rparr> :: py_exception + geodataframe"
  have c: "kd_query_contract brute_force_query"
    by (rule brute_force_query_contract)
  have l: "load_world ?rf ''world.geojson'' = ([''world.geojson''], Inr \<lparr>total_bounds = (0, 0, 10, 10)\<rparr>)"
    by (simp add: load_world_def)
  have "\<exists>reads fig. generate_voronoi_map brute_force_query ?rf [(0, 0), (0, 90)] ''world.geojson''
      (Some [- 180, 180, - 90, 90]) [''red'', ''blue''] None False True 3 3 = (reads, Inr fig)"
    by (rule generate_voronoi_map_total[OF l]) simp_all
  then obtain reads fig where
    g: "generate_voronoi_map brute_force_query ?rf [(0, 0), (0, 90)] ''world.geojson''
      (Some [- 180, 180, - 90, 90]) [''red'', ''blue''] None False True 3 3 = (reads, Inr fig)"
    by blast
  from example_raster have
    v: "fig_nearest_city fig = \<lparr>nrows = 3, ncols = 3, flat = [0, 0, 0, 1, 0, 1, 0, 0, 0]\<rparr>"
    unfolding g by simp
  from nearest_city_is_nearest[OF c g, of 1 1] c g v show ?thesis
    by (intro conjI exI[of _ reads] exI[of _ fig]) simp_all
qed

text \<open>
  Claim C4, amended. For every resolved extent \<open>[min_lon, max_lon, min_lat, max_lat]\<close> and
  every resolution \<open>(lat_n, lon_n)\<close> (two non-negative counts), the grid builder pads the
  extent by 10% of its height and width on each side, raises the lower window ends to
  \<open>-90\<close> and \<open>-180\<close>, lowers the upper ends to \<open>90\<close> and \<open>180\<close>, and returns exactly
  \<open>lat_n\<close> evenly spaced latitudes and \<open>lon_n\<close> evenly spaced longitudes spanning that
  window. The two meshgrid arrays have shape \<open>(lat_n, lon_n)\<close>, hold \<open>lat_n * lon_n\<close>
  values and are the Cartesian product of the two axes; for any non-empty list of sites
  the label raster is produced with the same shape and size, its entry \<open>(i, j)\<close> being
  the query's answer for the sample \<open>(lats[i], lons[j])\<close>. On an axis whose padded lower
  end does not exceed the upper legal bound and whose padded upper end is not below the
  lower legal bound, this window is the padded window clamped to the legal bounds. For
  other extents it is not: the extent \<open>[200, 300, 0, 10]\<close> gives the longitudes \<open>190\<close> and
  \<open>180\<close>, where the clamped window is \<open>(180, 180)\<close>.
\<close>

theorem grid_builder_shape:
  assumes "0 \<le> lat_n" and "0 \<le> lon_n"
  shows "\<exists>lats lons lon_grid lat_grid.
           build_grid [min_lon, max_lon, min_lat, max_lat] lat_n lon_n
             = Inr (lats, lons, lon_grid, lat_grid) \<and>
           evenly_spaced (max (- 90) (min_lat - (max_lat - min_lat) * 0.1))
                         (min 90 (max_lat + (max_lat - min_lat) * 0.1)) (nat lat_n) lats \<and>
           evenly_spaced (max (- 180) (min_lon - (max_lon - min_lon) * 0.1))
                         (min 180 (max_lon + (max_lon - min_lon) * 0.1)) (nat lon_n) lons \<and>
           shape lat_grid = (nat lat_n, nat lon_n) \<and>
           shape lon_grid = (nat lat_n, nat lon_n) \<and>
           length (flat lat_grid) = nat lat_n * nat lon_n \<and>
           length (flat lon_grid) = nat lat_n * nat lon_n \<and>
           (\<forall>i<nat lat_n. \<forall>j<nat lon_n.
              item lat_grid i j = lats ! i \<and> item lon_grid i j = lons ! j) \<and>
           (\<forall>query points. points \<noteq> [] \<longrightarrow>
              (\<exists>nearest_city. assign_nearest query points lon_grid lat_grid = Inr nearest_city \<and>
                 shape nearest_city = (nat lat_n, nat lon_n) \<and>
                 length (flat nearest_city) = nat lat_n * nat lon_n \<and>
                 (\<forall>i<nat lat_n. \<forall>j<nat lon_n.
                    item nearest_city i j =
                      query (map spec_unit_sphere points)
                            (spec_unit_sphere (lats ! i, lons ! j))))) \<and>
           (min_lat - (max_lat - min_lat) * 0.1 \<le> 90 \<and>
            - 90 \<le> max_lat + (max_lat - min_lat) * 0.1 \<longrightarrow>
              evenly_spaced (fst (spec_window 90 min_lat max_lat))
                            (snd (spec_window 90 min_lat max_lat)) (nat lat_n) lats) \<and>
           (min_lon - (max_lon - min_lon) * 0.1 \<le> 180 \<and>
            - 180 \<le> max_lon + (max_lon - min_lon) * 0.1 \<longrightarrow>
              evenly_spaced (fst (spec_window 180 min_lon max_lon))
                            (snd (spec_window 180 min_lon max_lon)) (nat lon_n) lons)"
proof -
  from build_grid_total[OF assms] obtain lats lons gx gy where
    g: "build_grid [min_lon, max_lon, min_lat, max_lat] lat_n lon_n = Inr (lats, lons, gx, gy)"
    by blast
  from g obtain a b c d where e: "[min_lon, max_lon, min_lat, max_lat] = [a, b, c, d]"
    and lats: "linspace (max (- 90) (c - (d - c) * 0.1)) (min 90 (d + (d - c) * 0.1)) lat_n = Inr lats"
    and lons: "linspace (max (- 180) (a - (b - a) * 0.1)) (min 180 (b + (b - a) * 0.1)) lon_n = Inr lons"
    and m: "meshgrid lons lats = (gx, gy)"
    by (rule build_grid_Inr)
  from e have abcd: "a = min_lon" "b = max_lon" "c = min_lat" "d = max_lat" by simp_all
  have len: "length lats = nat lat_n" "length lons = nat lon_n"
    using linspace_length(1)[OF lats] linspace_length(1)[OF lons] by simp_all
  have 1: "evenly_spaced (max (- 90) (min_lat - (max_lat - min_lat) * 0.1))
                         (min 90 (max_lat + (max_lat - min_lat) * 0.1)) (nat lat_n) lats"
    using linspace_evenly_spaced[OF lats] unfolding abcd .
  have 2: "evenly_spaced (max (- 180) (min_lon - (max_lon - min_lon) * 0.1))
                         (min 180 (max_lon + (max_lon - min_lon) * 0.1)) (nat lon_n) lons"
    using linspace_evenly_spaced[OF lons] unfolding abcd .
  have 3: "shape gy = (nat lat_n, nat lon_n)" "shape gx = (nat lat_n, nat lon_n)"
    "length (flat gy) = nat lat_n * nat lon_n" "length (flat gx) = nat lat_n * nat lon_n"
    using meshgrid_shape[OF m] len by simp_all
  have 4: "\<forall>i<nat lat_n. \<forall>j<nat lon_n. item gy i j = lats ! i \<and> item gx i j = lons ! j"
    using meshgrid_item[OF m] len by simp
  have 5: "\<exists>nc. assign_nearest query points gx gy = Inr nc \<and> shape nc = (nat lat_n, nat lon_n) \<and>
             length (flat nc) = nat lat_n * nat lon_n \<and>
             (\<forall>i<nat lat_n. \<forall>j<nat lon_n.
                item nc i j = query (map spec_unit_sphere points)
                                    (spec_unit_sphere (lats ! i, lons ! j)))"
    if "points \<noteq> []" for query and points :: "(real \<times> real) list"
  proof -
    from that obtain nc where nc: "assign_nearest query points gx gy = Inr nc"
      unfolding assign_nearest_meshgrid[OF m] by simp
    have "item nc i j = query (map spec_unit_sphere points) (spec_unit_sphere (lats ! i, lons ! j))"
      if "i < nat lat_n" "j < nat lon_n" for i j
      using assign_nearest_item[OF m nc] that len by simp
    with assign_nearest_shape[OF m nc] assign_nearest_length[OF m nc] len nc
    show ?thesis by simp
  qed
  have 6: "evenly_spaced (fst (spec_window 90 min_lat max_lat))
                         (snd (spec_window 90 min_lat max_lat)) (nat lat_n) lats"
    if "min_lat - (max_lat - min_lat) * 0.1 \<le> 90 \<and> - 90 \<le> max_lat + (max_lat - min_lat) * 0.1"
  proof -
    from that have "spec_window 90 min_lat max_lat =
        (max (- 90) (min_lat - (max_lat - min_lat) * 0.1), min 90 (max_lat + (max_lat - min_lat) * 0.1))"
      by (intro spec_window_one_sided) simp_all
    with 1 show ?thesis by simp
  qed
  have 7: "evenly_spaced (fst (spec_window 180 min_lon max_lon))
                         (snd (spec_window 180 min_lon max_lon)) (nat lon_n) lons"
    if "min_lon - (max_lon - min_lon) * 0.1 \<le> 180 \<and> - 180 \<le> max_lon + (max_lon - min_lon) * 0.1"
  proof -
    from that have "spec_window 180 min_lon max_lon =
        (max (- 180) (min_lon - (max_lon - min_lon) * 0.1), min 180 (max_lon + (max_lon - min_lon) * 0.1))"
      by (intro spec_window_one_sided) simp_all
    with 2 show ?thesis by simp
  qed
  from g 1 2 3 4 5 6 7 show ?thesis by blast
qed

theorem grid_builder_shape_witness:
  "(0::int) \<le> 3 \<and> (0::int) \<le> 5 \<and>
   (0 - (10 - 0) * 0.1 \<le> (90::real)) \<and> (- 90 \<le> 10 + (10 - 0) * (0.1::real)) \<and>
   (0 - (10 - 0) * 0.1 \<le> (180::real)) \<and> (- 180 \<le> 10 + (10 - 0) * (0.1::real)) \<and>
   spec_window 90 0 10 = (- 1, 11) \<and> spec_window 180 0 10 = (- 1, 11) \<and>
   (\<exists>lats lons lon_grid lat_grid.
      build_grid [0, 10, 0, 10] 3 5 = Inr (lats, lons, lon_grid, lat_grid) \<and>
      lats = [- 1, 5, 11] \<and> lons = [- 1, 2, 5, 8, 11] \<and>
      evenly_spaced (fst (spec_window 90 0 10)) (snd (spec_window 90 0 10)) 3 lats \<and>
      evenly_spaced (fst (spec_window 180 0 10)) (snd (spec_window 180 0 10)) 5 lons \<and>
      shape lat_grid = (3, 5) \<and> shape lon_grid = (3, 5) \<and>
      length (flat lat_grid) = 15 \<and> length (flat lon_grid) = 15 \<and>
      (\<exists>nearest_city.
         assign_nearest brute_force_query [(0, 0), (0, 90)] lon_grid lat_grid = Inr nearest_city \<and>
         shape nearest_city = (3, 5) \<and> length (flat nearest_city) = 15))"
proof -
  have h: "(0::int) \<le> 3" "(0::int) \<le> 5" by simp_all
  have c: "0 - (10 - 0) * 0.1 \<le> (90::real)" "- 90 \<le> 10 + (10 - 0) * (0.1::real)"
    "0 - (10 - 0) * 0.1 \<le> (180::real)" "- 180 \<le> 10 + (10 - 0) * (0.1::real)"
    by simp_all
  have w: "spec_window 90 0 10 = (- 1, 11)" "spec_window 180 0 10 = (- 1, 11)"
    by (simp_all add: spec_window_def clamp_def)
  have ne: "[(0::real, 0::real), (0, 90)] \<noteq> []" by simp
  from grid_builder_shape[OF h, of 0 10 0 10] c ne obtain lats lons lon_grid lat_grid nc where
    g: "build_grid [0, 10, 0, 10] 3 5 = Inr (lats, lons, lon_grid, lat_grid)"
    and ev: "evenly_spaced (fst (spec_window 90 0 10)) (snd (spec_window 90 0 10)) (nat 3) lats"
      "evenly_spaced (fst (spec_window 180 0 10)) (snd (spec_window 180 0 10)) (nat 5) lons"
    and sh: "shape lat_grid = (nat 3, nat 5)" "shape lon_grid = (nat 3, nat 5)"
      "length (flat lat_grid) = nat 3 * nat 5" "length (flat lon_grid) = nat 3 * nat 5"
    and nc: "assign_nearest brute_force_query [(0, 0), (0, 90)] lon_grid lat_grid = Inr nc"
      "shape nc = (nat 3, nat 5)" "length (flat nc) = nat 3 * nat 5"
    by blast
  have v: "build_grid [0, 10, 0, 10] 3 5
      = Inr ([- 1, 5, 11], [- 1, 2, 5, 8, 11],
             fst (meshgrid [- 1, 2, 5, 8, 11] [- 1, 5, 11]), snd (meshgrid [- 1, 2, 5, 8, 11] [- 1, 5, 11]))"
    by (simp add: build_grid_unfold linspace_def and_then_def Let_def upt_conv_Cons eval_nat_numeral)
  from g v have l: "lats = [- 1, 5, 11]" "lons = [- 1, 2, 5, 8, 11]" by simp_all
  from ev have ev': "evenly_spaced (fst (spec_window 90 0 10)) (snd (spec_window 90 0 10)) 3 lats"
    "evenly_spaced (fst (spec_window 180 0 10)) (snd (spec_window 180 0 10)) 5 lons"
    by simp_all
  from sh have sh': "shape lat_grid = (3, 5)" "shape lon_grid = (3, 5)"
    "length (flat lat_grid) = 15" "length (flat lon_grid) = 15"
    by simp_all
  from nc have nc': "\<exists>nearest_city.
         assign_nearest brute_force_query [(0, 0), (0, 90)] lon_grid lat_grid = Inr nearest_city \<and>
         shape nearest_city = (3, 5) \<and> length (flat nearest_city) = 15"
    by simp
  from h c w g l ev' sh' nc' show ?thesis by blast
qed

theorem grid_builder_shape_counterexample:
  "map_sum id (\<lambda>(lats, lons, lon_grid, lat_grid). (lats, lons, flat lon_grid))
     (build_grid [200, 300, 0, 10] 2 2)
   = Inr ([- 1, 11], [190, 180], [190, 180, 190, 180])
   \<and> spec_window 180 200 300 = (180, 180)
   \<and> \<not> evenly_spaced (fst (spec_window 180 200 300)) (snd (spec_window 180 200 300)) 2 [190, 180]"
proof -
  have 1: "map_sum id (\<lambda>(lats, lons, lon_grid, lat_grid). (lats, lons, flat lon_grid))
     (build_grid [200, 300, 0, 10] 2 2)
   = Inr ([- 1, 11], [190, 180], [190, 180, 190, 180])"
    by (simp add: build_grid_unfold linspace_def and_then_def Let_def upt_conv_Cons
        eval_nat_numeral meshgrid_def)
  have 2: "spec_window 180 200 300 = (180, 180)"
    by (simp add: spec_window_def clamp_def)
  have 3: "\<not> evenly_spaced (fst (spec_window 180 200 300)) (snd (spec_window 180 200 300)) 2 [190, 180]"
    unfolding 2 by (simp add: evenly_spaced_def)
  from 1 2 3 show ?thesis by blast
qed



text \<open>
  Claim C7. Let reading the caller's reference dataset fail. Then the bundled dataset is
  read, once, directly after the failed read, and nothing else is tried. If that read
  fails too, \<^verbatim>\<open>generate_voronoi_map\<close> ends with the exception of that read and returns no
  figure, and a request that passed the count checks is answered with an HTTP 500 that
  carries the exception. If it succeeds, every figure returned is built on the bundled
  dataset: its base map and its extent come from it, and the paths read are the caller's,
  the bundled one, and then at most the plugin's.
\<close>

theorem reference_dataset_fallback:
  assumes "read_file geojson_path = Inl e"
  shows "load_world read_file geojson_path
           = ([geojson_path, naturalearth_lowres], read_file naturalearth_lowres)
       \<and> (\<forall>e'. read_file naturalearth_lowres = Inl e' \<longrightarrow>
             generate_voronoi_map query read_file points geojson_path extent point_colors
               plugin_path draw_plugin fill_ocean lat_n lon_n
             = ([geojson_path, naturalearth_lowres], Inl e'))
       \<and> (\<forall>world reads fig. read_file naturalearth_lowres = Inr world \<longrightarrow>
             generate_voronoi_map query read_file points geojson_path extent point_colors
               plugin_path draw_plugin fill_ocean lat_n lon_n = (reads, Inr fig) \<longrightarrow>
             fig_world fig = world \<and> fig_extent fig = resolve_extent extent world \<and>
             reads = [geojson_path, naturalearth_lowres]
                       @ fst (draw_plugin_map read_file plugin_path draw_plugin))
       \<and> (\<forall>req pts ext cols e'.
             points_json req = Some pts \<and> extent_json req = Some ext \<and>
             colors_json req = Some cols \<and>
             2 \<le> length pts \<and> length pts \<le> 30 \<and> length cols = length pts \<and>
             geojson_path = os_path_join UPLOAD_DIR (filename req) \<and>
             read_file naturalearth_lowres = Inl e' \<longrightarrow>
             api_generate_map query read_file req = Inl (HTTPException 500 (ExceptionText e')))"
proof -
  have l: "load_world read_file geojson_path
             = ([geojson_path, naturalearth_lowres], read_file naturalearth_lowres)"
    using assms by (rule load_world_fallback[of read_file geojson_path e])
  have fail: "generate_voronoi_map q read_file ps geojson_path ex cs pp dp fo m n
                = ([geojson_path, naturalearth_lowres], Inl e')"
    if "read_file naturalearth_lowres = Inl e'" for e' q ps ex cs pp dp fo m n
    by (rule generate_voronoi_map_load_failure) (simp add: l that)
  have ok: "fig_world fig = world \<and> fig_extent fig = resolve_extent extent world \<and>
            reads = [geojson_path, naturalearth_lowres]
                      @ fst (draw_plugin_map read_file plugin_path draw_plugin)"
    if d: "read_file naturalearth_lowres = Inr world"
      and g: "generate_voronoi_map query read_file points geojson_path extent point_colors
                plugin_path draw_plugin fill_ocean lat_n lon_n = (reads, Inr fig)"
    for world reads fig
  proof -
    from g obtain wreads where
      w: "load_world read_file geojson_path = (wreads, Inr (fig_world fig))"
      and e: "fig_extent fig = resolve_extent extent (fig_world fig)"
      and r: "reads = wreads @ fst (draw_plugin_map read_file plugin_path draw_plugin)"
      by (rule generate_voronoi_map_Inr)
    from w l d have "wreads = [geojson_path, naturalearth_lowres]" "fig_world fig = world"
      by simp_all
    with e r show ?thesis by simp
  qed
  have api: "api_generate_map query read_file req = Inl (HTTPException 500 (ExceptionText e'))"
    if "points_json req = Some pts" "extent_json req = Some ext" "colors_json req = Some cols"
      "2 \<le> length pts" "length pts \<le> 30" "length cols = length pts"
      "geojson_path = os_path_join UPLOAD_DIR (filename req)"
      "read_file naturalearth_lowres = Inl e'"
    for req pts ext cols e'
    unfolding api_generate_map_valid[OF that(1-6)] that(7)[symmetric] fail[OF that(8)]
    by simp
  from l fail ok api show ?thesis by blast
qed

theorem reference_dataset_fallback_witness:
  "generate_voronoi_map brute_force_query (\<lambda>_. Inl (ReadError ''unreadable''))
     [(0, 0), (0, 90)] ''upload.geojson'' None [''red'', ''blue''] None False True 3 3
     = ([''upload.geojson'', naturalearth_lowres], Inl (ReadError ''unreadable'')) \<and>
   api_generate_map brute_force_query (\<lambda>_. Inl (ReadError ''unreadable''))
     \<lparr>points_json = Some [(0, 0), (0, 90)], extent_json = Some None,
      colors_json = Some [''red'', ''blue''], req_draw_plugin = False, req_fill_ocean = True,
      resolution = ''low'', filename = ''upload.geojson'', plugin_filename = None\<rparr>
     = Inl (HTTPException 500 (ExceptionText (ReadError ''unreadable''))) \<and>
   (\<exists>reads fig.
      generate_voronoi_map brute_force_query
        (\<lambda>p. if p = naturalearth_lowres then Inr \<lparr>total_bounds = (0, 0, 10, 10)\<rparr>
             else Inl (ReadError ''unreadable''))
        [(0, 0), (0, 90)] ''upload.geojson'' None [''red'', ''blue''] None False True 3 3
        = (reads, Inr fig) \<and>
      fig_world fig = \<lparr>total_bounds = (0, 0, 10, 10)\<rparr> \<and>
      fig_extent fig = [- 0.5, 10.5, - 0.5, 10.5] \<and>
      reads = [''upload.geojson'', naturalearth_lowres])"
proof -
  let ?bad = "\<lambda>_::string. Inl (ReadError ''unreadable'') :: py_exception + geodataframe"
  let ?w = "\<lparr>total_bounds = (0::real, 0::real, 10::real, 10::real)\<rparr>"
  let ?fb = "\<lambda>p. if p = naturalearth_lowres then Inr ?w else Inl (ReadError ''unreadable'')"
  let ?req = "\<lparr>points_json = Some [(0::real, 0::real), (0, 90)], extent_json = Some None,
      colors_json = Some [''red'', ''blue''], req_draw_plugin = False, req_fill_ocean = True,
      resolution = ''low'', filename = ''upload.geojson'', plugin_filename = None\<rparr>"
  have b1: "?bad ''upload.geojson'' = Inl (ReadError ''unreadable'')" by simp
  have b2: "?bad (os_path_join UPLOAD_DIR ''upload.geojson'') = Inl (ReadError ''unreadable'')" by simp
  have 1: "generate_voronoi_map brute_force_query ?bad
     [(0, 0), (0, 90)] ''upload.geojson'' None [''red'', ''blue''] None False True 3 3
     = ([''upload.geojson'', naturalearth_lowres], Inl (ReadError ''unreadable''))"
    using reference_dataset_fallback[of ?bad "''upload.geojson''", OF b1] by simp
  have 2: "api_generate_map brute_force_query ?bad ?req
     = Inl (HTTPException 500 (ExceptionText (ReadError ''unreadable'')))"
    using reference_dataset_fallback[of ?bad "os_path_join UPLOAD_DIR ''upload.geojson''", OF b2]
    by simp
  have f1: "?fb ''upload.geojson'' = Inl (ReadError ''unreadable'')"
    by (simp add: naturalearth_lowres_def)
  have f2: "?fb naturalearth_lowres = Inr ?w" by simp
  note t = reference_dataset_fallback[of ?fb "''upload.geojson''", OF f1]
  from t f2 have l: "load_world ?fb ''upload.geojson'' = ([''upload.geojson'', naturalearth_lowres], Inr ?w)"
    by simp
  have "\<exists>reads fig. generate_voronoi_map brute_force_query ?fb [(0, 0), (0, 90)] ''upload.geojson''
      None [''red'', ''blue''] None False True 3 3 = (reads, Inr fig)"
    by (rule generate_voronoi_map_total[OF l]) simp_all
  then obtain reads fig where
    g: "generate_voronoi_map brute_force_query ?fb [(0, 0), (0, 90)] ''upload.geojson''
      None [''red'', ''blue''] None False True 3 3 = (reads, Inr fig)"
    by blast
  from reference_dataset_fallback[of ?fb "''upload.geojson''" _ brute_force_query "[(0, 0), (0, 90)]"
        None "[''red'', ''blue'']" None False True 3 3, OF f1] f2 g
  have "fig_world fig = ?w \<and> fig_extent fig = resolve_extent None ?w \<and>
        reads = [''upload.geojson'', naturalearth_lowres] @ fst (draw_plugin_map ?fb None False)"
    by blast
  then have 3: "fig_world fig = ?w" "fig_extent fig = [- 0.5, 10.5, - 0.5, 10.5]"
    "reads = [''upload.geojson'', naturalearth_lowres]"
    by (simp_all add: resolve_extent_def draw_plugin_map_def)
  from 1 2 g 3 show ?thesis by blast
qed

text \<open>
  Claim C9. The outcome of \<^verbatim>\<open>generate_voronoi_map\<close>, seen through the label raster (the
  raster, or the exception raised), is the same for any two calls that differ only in
  \<open>point_colors\<close>, \<open>plugin_path\<close>, \<open>draw_plugin\<close> and \<open>fill_ocean\<close>. Moreover, for two
  calls with the same sites, the same resolution and the same tree query that both return,
  whatever their readers, paths, extents and rendering arguments: if their resolved extents
  agree, their label rasters and their grids are identical.
\<close>

theorem label_raster_noninterference:
  "map_sum id fig_nearest_city
     (snd (generate_voronoi_map query read_file points geojson_path extent
             point_colors plugin_path draw_plugin fill_ocean lat_n lon_n))
   = map_sum id fig_nearest_city
     (snd (generate_voronoi_map query read_file points geojson_path extent
             point_colors' plugin_path' draw_plugin' fill_ocean' lat_n lon_n))
   \<and> (\<forall>read_file' geojson_path' extent' reads fig reads' fig'.
         generate_voronoi_map query read_file points geojson_path extent
           point_colors plugin_path draw_plugin fill_ocean lat_n lon_n = (reads, Inr fig) \<and>
         generate_voronoi_map query read_file' points geojson_path' extent'
           point_colors' plugin_path' draw_plugin' fill_ocean' lat_n lon_n = (reads', Inr fig') \<and>
         fig_extent fig = fig_extent fig' \<longrightarrow>
         fig_nearest_city fig = fig_nearest_city fig' \<and>
         fig_lat_grid fig = fig_lat_grid fig' \<and> fig_lon_grid fig = fig_lon_grid fig')"
proof -
  let ?view = "\<lambda>fig. (fig_lon_grid fig, fig_lat_grid fig, fig_nearest_city fig, fig_extent fig)"
  let ?run = "generate_voronoi_map query read_file points geojson_path extent
             point_colors plugin_path draw_plugin fill_ocean lat_n lon_n"
  let ?run' = "generate_voronoi_map query read_file points geojson_path extent
             point_colors' plugin_path' draw_plugin' fill_ocean' lat_n lon_n"
  have "map_sum id ?view (snd ?run) = map_sum id ?view (snd ?run')"
    unfolding generate_voronoi_map_raster by (rule refl)
  then have "map_sum id (\<lambda>(gx, gy, nc, ex). nc) (map_sum id ?view (snd ?run))
           = map_sum id (\<lambda>(gx, gy, nc, ex). nc) (map_sum id ?view (snd ?run'))"
    by simp
  then have 1: "map_sum id fig_nearest_city (snd ?run) = map_sum id fig_nearest_city (snd ?run')"
    by (simp add: sum.map_comp o_def id_def)
  have 2: "fig_nearest_city fig = fig_nearest_city fig' \<and>
         fig_lat_grid fig = fig_lat_grid fig' \<and> fig_lon_grid fig = fig_lon_grid fig'"
    if r: "generate_voronoi_map query read_file points geojson_path extent
           point_colors plugin_path draw_plugin fill_ocean lat_n lon_n = (reads, Inr fig)"
      and r': "generate_voronoi_map query read_file' points geojson_path' extent'
           point_colors' plugin_path' draw_plugin' fill_ocean' lat_n lon_n = (reads', Inr fig')"
      and e: "fig_extent fig = fig_extent fig'"
    for read_file' geojson_path' extent' reads fig reads' fig'
  proof -
    from r obtain lats lons where
      g: "build_grid (fig_extent fig) lat_n lon_n = Inr (lats, lons, fig_lon_grid fig, fig_lat_grid fig)"
      and a: "assign_nearest query points (fig_lon_grid fig) (fig_lat_grid fig) = Inr (fig_nearest_city fig)"
      by (rule generate_voronoi_map_Inr)
    from r' obtain lats' lons' where
      g': "build_grid (fig_extent fig') lat_n lon_n = Inr (lats', lons', fig_lon_grid fig', fig_lat_grid fig')"
      and a': "assign_nearest query points (fig_lon_grid fig') (fig_lat_grid fig') = Inr (fig_nearest_city fig')"
      by (rule generate_voronoi_map_Inr)
    from g g' e have grids: "fig_lon_grid fig = fig_lon_grid fig'" "fig_lat_grid fig = fig_lat_grid fig'"
      by simp_all
    with a a' have "fig_nearest_city fig = fig_nearest_city fig'" by simp
    with grids show ?thesis by simp
  qed
  from 1 2 show ?thesis by blast
qed

theorem label_raster_noninterference_witness:
  "\<exists>reads fig reads' fig'.
     generate_voronoi_map brute_force_query (\<lambda>_. Inr \<lparr>total_bounds = (0, 0, 10, 10)\<rparr>)
       [(0, 0), (0, 90)] ''world.geojson'' (Some [- 0.5, 10.5, - 0.5, 10.5]) [''red'', ''blue'']
       None False True 3 3 = (reads, Inr fig) \<and>
     generate_voronoi_map brute_force_query (\<lambda>_. Inr \<lparr>total_bounds = (0, 0, 10, 10)\<rparr>)
       [(0, 0), (0, 90)] ''other.geojson'' None [''green'', ''black'']
       (Some ''overlay.geojson'') True False 3 3 = (reads', Inr fig') \<and>
     fig_extent fig = fig_extent fig' \<and>
     fig_nearest_city fig = fig_nearest_city fig' \<and>
     fig_colors fig = [''red'', ''blue''] \<and> fig_colors fig' = [''green'', ''black''] \<and>
     fig_ocean fig \<and> \<not> fig_ocean fig' \<and>
     fig_plugin_map fig = None \<and> fig_plugin_map fig' = Some \<lparr>total_bounds = (0, 0, 10, 10)\<rparr>"
proof -
  let ?w = "\<lparr>total_bounds = (0::real, 0::real, 10::real, 10::real)\<rparr>"
  let ?rf = "\<lambda>_::string. Inr ?w :: py_exception + geodataframe"
  have l: "load_world ?rf ''world.geojson'' = ([''world.geojson''], Inr ?w)"
    and l': "load_world ?rf ''other.geojson'' = ([''other.geojson''], Inr ?w)"
    by (simp_all add: load_world_def)
  have "\<exists>reads fig. generate_voronoi_map brute_force_query ?rf [(0, 0), (0, 90)] ''world.geojson''
      (Some [- 0.5, 10.5, - 0.5, 10.5]) [''red'', ''blue''] None False True 3 3 = (reads, Inr fig)"
    by (rule generate_voronoi_map_total[OF l]) simp_all
  then obtain reads fig where
    g: "generate_voronoi_map brute_force_query ?rf [(0, 0), (0, 90)] ''world.geojson''
      (Some [- 0.5, 10.5, - 0.5, 10.5]) [''red'', ''blue''] None False True 3 3 = (reads, Inr fig)"
    by blast
  have "\<exists>reads fig. generate_voronoi_map brute_force_query ?rf [(0, 0), (0, 90)] ''other.geojson''
      None [''green'', ''black''] (Some ''overlay.geojson'') True False 3 3 = (reads, Inr fig)"
    by (rule generate_voronoi_map_total[OF l']) simp_all
  then obtain reads' fig' where
    g': "generate_voronoi_map brute_force_query ?rf [(0, 0), (0, 90)] ''other.geojson''
      None [''green'', ''black''] (Some ''overlay.geojson'') True False 3 3 = (reads', Inr fig')"
    by blast
  from g obtain wreads where
    "load_world ?rf ''world.geojson'' = (wreads, Inr (fig_world fig))"
    and f0: "fig_extent fig = resolve_extent (Some [- 0.5, 10.5, - 0.5, 10.5]) (fig_world fig)"
    "fig_colors fig = take (length [(0::real, 0::real), (0, 90)]) [''red'', ''blue'']"
    "fig_ocean fig = True" "fig_plugin_map fig = snd (draw_plugin_map ?rf None False)"
    by (rule generate_voronoi_map_Inr)
  with l have w: "fig_world fig = ?w" by simp
  note f = f0[unfolded w]
  from g' obtain wreads' where
    "load_world ?rf ''other.geojson'' = (wreads', Inr (fig_world fig'))"
    and f0': "fig_extent fig' = resolve_extent None (fig_world fig')"
    "fig_colors fig' = take (length [(0::real, 0::real), (0, 90)]) [''green'', ''black'']"
    "fig_ocean fig' = False"
    "fig_plugin_map fig' = snd (draw_plugin_map ?rf (Some ''overlay.geojson'') True)"
    by (rule generate_voronoi_map_Inr)
  with l' have w': "fig_world fig' = ?w" by simp
  note f' = f0'[unfolded w']
  have e: "fig_extent fig = fig_extent fig'"
    unfolding f f' by (simp add: resolve_extent_def)
  from label_raster_noninterference[of brute_force_query ?rf "[(0, 0), (0, 90)]" "''world.geojson''"
      "Some [- 0.5, 10.5, - 0.5, 10.5]" "[''red'', ''blue'']" None False True 3 3
      "[''green'', ''black'']" "Some ''overlay.geojson''" True False] g g' e
  have n: "fig_nearest_city fig = fig_nearest_city fig'" by blast
  have c: "fig_colors fig = [''red'', ''blue'']" "fig_colors fig' = [''green'', ''black'']"
    "fig_ocean fig" "\<not> fig_ocean fig'"
    "fig_plugin_map fig = None" "fig_plugin_map fig' = Some ?w"
    unfolding f f' by (simp_all add: draw_plugin_map_def)
  from g g' e n c show ?thesis by blast
qed

text \<open>
  Claim C10, amended. The window ends are cut on one side each: the lower end is raised to
  the legal minimum, the upper end is lowered to the legal maximum. So, for every figure
  returned, whether its extent was supplied by the caller or derived from the dataset:
  if the padded lower ends \<open>min_lon - 10%\<close> and \<open>min_lat - 10%\<close> do not exceed \<open>180\<close> and
  \<open>90\<close>, and the padded upper ends are not below \<open>-180\<close> and \<open>-90\<close>, then every grid
  latitude lies in \<open>[-90, 90]\<close> and every grid longitude in \<open>[-180, 180]\<close>. Every extent
  inside the legal ranges with \<open>min \<le> max\<close> meets these conditions. For an arbitrary
  caller-supplied extent the bound fails: \<open>[200, 300, 0, 10]\<close> gives the longitudes
  \<open>190\<close> and \<open>180\<close> (the counterexample below).
\<close>

theorem grid_within_legal_bounds:
  assumes "generate_voronoi_map query read_file points geojson_path extent point_colors
             plugin_path draw_plugin fill_ocean lat_n lon_n = (reads, Inr fig)"
    and "fig_extent fig = [min_lon, max_lon, min_lat, max_lat]"
    and "min_lon - (max_lon - min_lon) * 0.1 \<le> 180"
    and "- 180 \<le> max_lon + (max_lon - min_lon) * 0.1"
    and "min_lat - (max_lat - min_lat) * 0.1 \<le> 90"
    and "- 90 \<le> max_lat + (max_lat - min_lat) * 0.1"
  shows "(\<forall>lat\<in>set (flat (fig_lat_grid fig)). - 90 \<le> lat \<and> lat \<le> 90) \<and>
         (\<forall>lon\<in>set (flat (fig_lon_grid fig)). - 180 \<le> lon \<and> lon \<le> 180)"
proof -
  note b = generate_voronoi_map_grid_between[OF assms(1,2)]
  have "- 90 \<le> lat \<and> lat \<le> 90" if "lat \<in> set (flat (fig_lat_grid fig))" for lat
    using b(1) that assms(5,6) by (fastforce simp: min_def max_def split: if_splits)
  moreover have "- 180 \<le> lon \<and> lon \<le> 180" if "lon \<in> set (flat (fig_lon_grid fig))" for lon
    using b(2) that assms(3,4) by (fastforce simp: min_def max_def split: if_splits)
  ultimately show ?thesis by blast
qed

theorem grid_within_legal_bounds_witness:
  "\<exists>reads fig.
     generate_voronoi_map brute_force_query (\<lambda>_. Inr \<lparr>total_bounds = (0, 0, 10, 10)\<rparr>)
       [(0, 0), (0, 90)] ''world.geojson'' (Some [170, 180, 80, 90]) [''red'', ''blue'']
       None False True 3 3 = (reads, Inr fig) \<and>
     fig_extent fig = [170, 180, 80, 90] \<and>
     (170 - (180 - 170) * 0.1 \<le> (180::real)) \<and> (- 180 \<le> 180 + (180 - 170) * (0.1::real)) \<and>
     (80 - (90 - 80) * 0.1 \<le> (90::real)) \<and> (- 90 \<le> 90 + (90 - 80) * (0.1::real)) \<and>
     (\<forall>lat\<in>set (flat (fig_lat_grid fig)). - 90 \<le> lat \<and> lat \<le> 90) \<and>
     (\<forall>lon\<in>set (flat (fig_lon_grid fig)). - 180 \<le> lon \<and> lon \<le> 180)"
proof -
  let ?w = "\<lparr>total_bounds = (0::real, 0::real, 10::real, 10::real)\<rparr>"
  let ?rf = "\<lambda>_::string. Inr ?w :: py_exception + geodataframe"
  have l: "load_world ?rf ''world.geojson'' = ([''world.geojson''], Inr ?w)"
    by (simp add: load_world_def)
  have "\<exists>reads fig. generate_voronoi_map brute_force_query ?rf [(0, 0), (0, 90)] ''world.geojson''
      (Some [170, 180, 80, 90]) [''red'', ''blue''] None False True 3 3 = (reads, Inr fig)"
    by (rule generate_voronoi_map_total[OF l]) simp_all
  then obtain reads fig where
    g: "generate_voronoi_map brute_force_query ?rf [(0, 0), (0, 90)] ''world.geojson''
      (Some [170, 180, 80, 90]) [''red'', ''blue''] None False True 3 3 = (reads, Inr fig)"
    by blast
  from g obtain wreads where
    "load_world ?rf ''world.geojson'' = (wreads, Inr (fig_world fig))"
    and "fig_extent fig = resolve_extent (Some [170, 180, 80, 90]) (fig_world fig)"
    by (rule generate_voronoi_map_Inr)
  then have e: "fig_extent fig = [170, 180, 80, 90]"
    by (simp add: resolve_extent_def)
  have h: "170 - (180 - 170) * 0.1 \<le> (180::real)" "- 180 \<le> 180 + (180 - 170) * (0.1::real)"
    "80 - (90 - 80) * 0.1 \<le> (90::real)" "- 90 \<le> 90 + (90 - 80) * (0.1::real)"
    by simp_all
  from grid_within_legal_bounds[OF g e h] g e h show ?thesis by blast
qed

theorem grid_within_legal_bounds_counterexample:
  "map_sum id (\<lambda>fig. (fig_extent fig, flat (fig_lat_grid fig), flat (fig_lon_grid fig)))
     (snd (generate_voronoi_map brute_force_query (\<lambda>_. Inr \<lparr>total_bounds = (0, 0, 10, 10)\<rparr>)
             [(0, 0), (0, 90)] ''world.geojson'' (Some [200, 300, 0, 10]) [''red'', ''blue'']
             None False True 2 2))
   = Inr ([200, 300, 0, 10], [- 1, - 1, 11, 11], [190, 180, 190, 180])
   \<and> (180::real) < 190"
proof -
  let ?w = "\<lparr>total_bounds = (0::real, 0::real, 10::real, 10::real)\<rparr>"
  let ?rf = "\<lambda>_::string. Inr ?w :: py_exception + geodataframe"
  have l: "load_world ?rf ''world.geojson'' = ([''world.geojson''], Inr ?w)"
    by (simp add: load_world_def)
  have r: "resolve_extent (Some [200, 300, 0, 10]) ?w = [200, 300, 0, 10]"
    by (simp add: resolve_extent_def)
  have lats: "linspace (max (- 90) (0 - (10 - 0) * 0.1)) (min 90 (10 + (10 - 0) * 0.1)) 2 = Inr [- 1, 11]"
    by (simp add: linspace_def Let_def upt_conv_Cons eval_nat_numeral)
  have lons: "linspace (max (- 180) (200 - (300 - 200) * 0.1)) (min 180 (300 + (300 - 200) * 0.1)) 2
      = Inr [190, 180]"
    by (simp add: linspace_def Let_def upt_conv_Cons eval_nat_numeral)
  have ne: "[(0::real, 0::real), (0, 90)] \<noteq> []" by simp
  show ?thesis
    unfolding generate_voronoi_map_grids[OF l ne r lats lons] by simp
qed

text \<open>
  Claim C5, amended. The code does not inspect the extent. For a caller-supplied extent of
  zero width (\<open>min_lon = max_lon\<close>) or zero height (\<open>min_lat = max_lat\<close>), whenever the
  dataset loads, there is at least one site and both counts are non-negative,
  \<^verbatim>\<open>generate_voronoi_map\<close> raises nothing and returns a figure: the extent is kept as
  given, the grid and the raster have shape \<open>(lat_n, lon_n)\<close>, and when the repeated
  bound lies inside its legal range every grid longitude (or latitude) equals it.
\<close>

theorem degenerate_extent_not_rejected:
  assumes "load_world read_file geojson_path = (wreads, Inr world)"
    and "points \<noteq> []" and "0 \<le> lat_n" and "0 \<le> lon_n"
    and "min_lon = max_lon \<or> min_lat = max_lat"
  shows "\<exists>reads fig.
           generate_voronoi_map query read_file points geojson_path
             (Some [min_lon, max_lon, min_lat, max_lat]) point_colors
             plugin_path draw_plugin fill_ocean lat_n lon_n = (reads, Inr fig) \<and>
           fig_extent fig = [min_lon, max_lon, min_lat, max_lat] \<and>
           shape (fig_lon_grid fig) = (nat lat_n, nat lon_n) \<and>
           shape (fig_lat_grid fig) = (nat lat_n, nat lon_n) \<and>
           shape (fig_nearest_city fig) = (nat lat_n, nat lon_n) \<and>
           (min_lon = max_lon \<and> - 180 \<le> min_lon \<and> min_lon \<le> 180 \<longrightarrow>
              (\<forall>lon\<in>set (flat (fig_lon_grid fig)). lon = min_lon)) \<and>
           (min_lat = max_lat \<and> - 90 \<le> min_lat \<and> min_lat \<le> 90 \<longrightarrow>
              (\<forall>lat\<in>set (flat (fig_lat_grid fig)). lat = min_lat))"
proof -
  from generate_voronoi_map_total[OF assms(1-4)] obtain reads fig where
    g: "generate_voronoi_map query read_file points geojson_path
             (Some [min_lon, max_lon, min_lat, max_lat]) point_colors
             plugin_path draw_plugin fill_ocean lat_n lon_n = (reads, Inr fig)"
    by blast
  from g have "fig_extent fig = resolve_extent (Some [min_lon, max_lon, min_lat, max_lat]) (fig_world fig)"
    by (rule generate_voronoi_map_Inr)
  then have e: "fig_extent fig = [min_lon, max_lon, min_lat, max_lat]"
    by (simp add: resolve_extent_def)
  note sh = generate_voronoi_map_shape[OF g]
  note b = generate_voronoi_map_grid_between[OF g e]
  have lon: "\<forall>lon\<in>set (flat (fig_lon_grid fig)). lon = min_lon"
    if "min_lon = max_lon \<and> - 180 \<le> min_lon \<and> min_lon \<le> 180"
    using b(2) that by fastforce
  have lat: "\<forall>lat\<in>set (flat (fig_lat_grid fig)). lat = min_lat"
    if "min_lat = max_lat \<and> - 90 \<le> min_lat \<and> min_lat \<le> 90"
    using b(1) that by fastforce
  from g e sh lon lat show ?thesis by blast
qed

theorem degenerate_extent_not_rejected_witness:
  "\<exists>reads fig.
     generate_voronoi_map brute_force_query (\<lambda>_. Inr \<lparr>total_bounds = (0, 0, 10, 10)\<rparr>)
       [(0, 0), (0, 90)] ''world.geojson'' (Some [10, 10, 0, 20]) [''red'', ''blue'']
       None False True 600 1200 = (reads, Inr fig) \<and>
     fig_extent fig = [10, 10, 0, 20] \<and>
     shape (fig_lon_grid fig) = (600, 1200) \<and>
     shape (fig_nearest_city fig) = (600, 1200) \<and>
     (\<forall>lon\<in>set (flat (fig_lon_grid fig)). lon = 10)"
proof -
  let ?w = "\<lparr>total_bounds = (0::real, 0::real, 10::real, 10::real)\<rparr>"
  let ?rf = "\<lambda>_::string. Inr ?w :: py_exception + geodataframe"
  have l: "load_world ?rf ''world.geojson'' = ([''world.geojson''], Inr ?w)"
    by (simp add: load_world_def)
  have h: "[(0::real, 0::real), (0, 90)] \<noteq> []" "(0::int) \<le> 600" "(0::int) \<le> 1200"
    "(10::real) = 10 \<or> (0::real) = 20"
    by simp_all
  from degenerate_extent_not_rejected[OF l h, of brute_force_query "[''red'', ''blue'']" None False True]
  obtain reads fig where
    "generate_voronoi_map brute_force_query ?rf [(0, 0), (0, 90)] ''world.geojson''
       (Some [10, 10, 0, 20]) [''red'', ''blue''] None False True 600 1200 = (reads, Inr fig)"
    "fig_extent fig = [10, 10, 0, 20]"
    "shape (fig_lon_grid fig) = (nat 600, nat 1200)"
    "shape (fig_nearest_city fig) = (nat 600, nat 1200)"
    "(10::real) = 10 \<and> - 180 \<le> (10::real) \<and> (10::real) \<le> 180 \<longrightarrow>
       (\<forall>lon\<in>set (flat (fig_lon_grid fig)). lon = 10)"
    by blast
  then show ?thesis by (intro exI[of _ reads] exI[of _ fig]) simp
qed

theorem degenerate_extent_not_rejected_counterexample:
  "map_sum id (\<lambda>fig. (fig_extent fig, flat (fig_lat_grid fig), flat (fig_lon_grid fig)))
     (snd (generate_voronoi_map brute_force_query (\<lambda>_. Inr \<lparr>total_bounds = (0, 0, 10, 10)\<rparr>)
             [(0, 0), (0, 90)] ''world.geojson'' (Some [10, 10, 0, 20]) [''red'', ''blue'']
             None False True 2 2))
   = Inr ([10, 10, 0, 20], [- 2, - 2, 22, 22], [10, 10, 10, 10])"
proof -
  let ?w = "\<lparr>total_bounds = (0::real, 0::real, 10::real, 10::real)\<rparr>"
  let ?rf = "\<lambda>_::string. Inr ?w :: py_exception + geodataframe"
  have l: "load_world ?rf ''world.geojson'' = ([''world.geojson''], Inr ?w)"
    by (simp add: load_world_def)
  have r: "resolve_extent (Some [10, 10, 0, 20]) ?w = [10, 10, 0, 20]"
    by (simp add: resolve_extent_def)
  have lats: "linspace (max (- 90) (0 - (20 - 0) * 0.1)) (min 90 (20 + (20 - 0) * 0.1)) 2 = Inr [- 2, 22]"
    by (simp add: linspace_def Let_def upt_conv_Cons eval_nat_numeral)
  have lons: "linspace (max (- 180) (10 - (10 - 10) * 0.1)) (min 180 (10 + (10 - 10) * 0.1)) 2
      = Inr [10, 10]"
    by (simp add: linspace_def Let_def upt_conv_Cons eval_nat_numeral)
  have ne: "[(0::real, 0::real), (0, 90)] \<noteq> []" by simp
  show ?thesis
    unfolding generate_voronoi_map_grids[OF l ne r lats lons] by simp
qed

text \<open>
  Claim C6, amended. A resolution value other than \<open>low\<close>, \<open>medium\<close> and \<open>high\<close> is not
  rejected: \<^verbatim>\<open>RESOLUTION_MAP.get\<close> falls back to \<open>(1200, 2400)\<close>, the grid size of the
  medium tier, and the request is answered exactly as the same request with resolution
  \<open>medium\<close> is.
\<close>

theorem invalid_resolution_defaults:
  assumes "resolution req \<notin> {''low'', ''medium'', ''high''}"
  shows "dict_get RESOLUTION_MAP (resolution req) (1200, 2400) = (1200, 2400) \<and>
         api_generate_map query read_file req
           = api_generate_map query read_file (req\<lparr>resolution := ''medium''\<rparr>)"
proof -
  have d: "dict_get RESOLUTION_MAP (resolution req) (1200, 2400) = (1200, 2400)"
    by (rule RESOLUTION_MAP_default[OF assms])
  have "api_generate_map query read_file req
           = api_generate_map query read_file (req\<lparr>resolution := ''medium''\<rparr>)"
    by (rule api_generate_map_resolution[where r = "''medium''"])
       (simp_all add: d RESOLUTION_MAP_medium)
  with d show ?thesis by simp
qed

theorem invalid_resolution_defaults_witness:
  "''ultra'' \<notin> {''low'', ''medium'', ''high''} \<and>
   dict_get RESOLUTION_MAP ''ultra'' (1200, 2400) = (1200, 2400) \<and>
   api_generate_map brute_force_query (\<lambda>_. Inr \<lparr>total_bounds = (0, 0, 10, 10)\<rparr>)
     \<lparr>points_json = Some [(0, 0), (0, 90)], extent_json = Some None,
      colors_json = Some [''red'', ''blue''], req_draw_plugin = False, req_fill_ocean = True,
      resolution = ''ultra'', filename = ''upload.geojson'', plugin_filename = None\<rparr>
   = api_generate_map brute_force_query (\<lambda>_. Inr \<lparr>total_bounds = (0, 0, 10, 10)\<rparr>)
     \<lparr>points_json = Some [(0, 0), (0, 90)], extent_json = Some None,
      colors_json = Some [''red'', ''blue''], req_draw_plugin = False, req_fill_ocean = True,
      resolution = ''medium'', filename = ''upload.geojson'', plugin_filename = None\<rparr>"
proof -
  let ?req = "\<lparr>points_json = Some [(0::real, 0::real), (0, 90)], extent_json = Some None,
      colors_json = Some [''red'', ''blue''], req_draw_plugin = False, req_fill_ocean = True,
      resolution = ''ultra'', filename = ''upload.geojson'', plugin_filename = None\<rparr>"
  have h: "resolution ?req \<notin> {''low'', ''medium'', ''high''}" by simp
  from invalid_resolution_defaults[OF h, of brute_force_query
      "\<lambda>_. Inr \<lparr>total_bounds = (0, 0, 10, 10)\<rparr>"] h
  show ?thesis by simp
qed

theorem invalid_resolution_defaults_counterexample:
  "map_sum id (\<lambda>fig. shape (fig_nearest_city fig))
     (api_generate_map brute_force_query (\<lambda>_. Inr \<lparr>total_bounds = (0, 0, 10, 10)\<rparr>)
        \<lparr>points_json = Some [(0, 0), (0, 90)], extent_json = Some None,
         colors_json = Some [''red'', ''blue''], req_draw_plugin = False, req_fill_ocean = True,
         resolution = ''ultra'', filename = ''upload.geojson'', plugin_filename = None\<rparr>)
   = Inr (1200, 2400)"
proof -
  let ?w = "\<lparr>total_bounds = (0::real, 0::real, 10::real, 10::real)\<rparr>"
  let ?rf = "\<lambda>_::string. Inr ?w :: py_exception + geodataframe"
  let ?req = "\<lparr>points_json = Some [(0::real, 0::real), (0, 90)], extent_json = Some None,
      colors_json = Some [''red'', ''blue''], req_draw_plugin = False, req_fill_ocean = True,
      resolution = ''ultra'', filename = ''upload.geojson'', plugin_filename = None\<rparr>"
  let ?path = "os_path_join UPLOAD_DIR ''upload.geojson''"
  have d: "dict_get RESOLUTION_MAP ''ultra'' (1200, 2400) = (1200, 2400)"
    by (rule RESOLUTION_MAP_default) simp
  have l: "load_world ?rf ?path = ([?path], Inr ?w)"
    by (simp add: load_world_def)
  have "\<exists>reads fig. generate_voronoi_map brute_force_query ?rf [(0, 0), (0, 90)] ?path
      None [''red'', ''blue''] None False True 1200 2400 = (reads, Inr fig)"
    by (rule generate_voronoi_map_total[OF l]) simp_all
  then obtain reads fig where
    g: "generate_voronoi_map brute_force_query ?rf [(0, 0), (0, 90)] ?path
      None [''red'', ''blue''] None False True 1200 2400 = (reads, Inr fig)"
    by blast
  have sh: "shape (fig_nearest_city fig) = (1200, 2400)"
    using generate_voronoi_map_shape(1)[OF g] by simp
  have "api_generate_map brute_force_query ?rf ?req = Inr fig"
    using api_generate_map_valid[of ?req "[(0, 0), (0, 90)]" None "[''red'', ''blue'']"
        brute_force_query ?rf] d g
    by simp
  with sh show ?thesis by simp
qed



end
